theory Spec2Isabelle
  imports Complex_Main
begin

section \<open>Star tracking and aperture photometry (photometry.py)\<close>

text \<open>
  A shallow embedding of the tracking and photometry core of
  \<^verbatim>\<open>AperturePhotometryGUI\<close> in \<^verbatim>\<open>src/photometry.py\<close>.
  Python floats are modelled by \<^typ>\<open>real\<close>, so rounding, NaN and infinities are
  outside the model; Python ints are \<^typ>\<open>int\<close> or \<^typ>\<open>nat\<close> where the code
  keeps them non-negative.
\<close>

subsection \<open>Tracking history\<close>

type_synonym position = "real \<times> real"

text \<open>
  The attributes \<^verbatim>\<open>position_history\<close>, \<^verbatim>\<open>velocity_history\<close> and
  \<^verbatim>\<open>tracking_confidence\<close> of the GUI object; the oldest entry is first.
\<close>

record tracking_history =
  position_history :: "position list"
  velocity_history :: "position list"
  tracking_confidence :: "real list"

text \<open>The state set by \<^verbatim>\<open>__init__\<close> and by every session reset.\<close>

definition empty_history :: tracking_history where
  "empty_history =
     \<lparr>position_history = [], velocity_history = [], tracking_confidence = []\<rparr>"

text \<open>\<^verbatim>\<open>self.tracking_history_size = 5\<close>, assigned once in \<^verbatim>\<open>__init__\<close>.\<close>

definition tracking_history_size :: nat where
  "tracking_history_size = 5"

text \<open>
  \<^verbatim>\<open>_update_tracking_history(position, confidence)\<close>: append, derive a velocity from
  the entry before the new one, then drop the head of each list that has grown beyond
  the history size (\<^verbatim>\<open>pop(0)\<close>).
\<close>

definition update_tracking_history ::
  "position \<Rightarrow> real \<Rightarrow> tracking_history \<Rightarrow> tracking_history" where
  "update_tracking_history pos confidence h =
     (let ph = position_history h @ [pos];
          tc = tracking_confidence h @ [confidence];
          vh = (if 2 \<le> length ph
                then (let prev_pos = ph ! (length ph - 2)
                      in velocity_history h @
                           [(fst pos - fst prev_pos, snd pos - snd prev_pos)])
                else velocity_history h);
          over = (tracking_history_size < length ph);
          ph' = (if over then tl ph else ph);
          tc' = (if over then tl tc else tc);
          vh' = (if tracking_history_size < length vh then tl vh else vh)
      in \<lparr>position_history = ph', velocity_history = vh', tracking_confidence = tc'\<rparr>)"

text \<open>A finite sequence of pushes, applied from left to right.\<close>

definition push_all :: "(position \<times> real) list \<Rightarrow> tracking_history \<Rightarrow> tracking_history" where
  "push_all ps h = fold (\<lambda>(p, c). update_tracking_history p c) ps h"

text \<open>
  Reference notion for the velocity entries: the differences of consecutive positions
  of a sequence.
\<close>

fun deltas :: "position list \<Rightarrow> position list" where
  "deltas [] = []"
| "deltas [p] = []"
| "deltas (p # q # r) = (fst q - fst p, snd q - snd p) # deltas (q # r)"

text \<open>The last \<open>n\<close> entries of a list, in order.\<close>

definition last_n :: "nat \<Rightarrow> 'a list \<Rightarrow> 'a list" where
  "last_n n xs = drop (length xs - n) xs"


subsection \<open>Numeric helpers (Python and NumPy built-ins)\<close>

text \<open>\<^verbatim>\<open>int(x)\<close> on a float truncates toward zero.\<close>

definition py_int :: "real \<Rightarrow> int" where
  "py_int x = (if 0 \<le> x then \<lfloor>x\<rfloor> else \<lceil>x\<rceil>)"

definition np_mean :: "real list \<Rightarrow> real" where
  "np_mean xs = sum_list xs / real (length xs)"

text \<open>\<^verbatim>\<open>np.std\<close> with its default \<^verbatim>\<open>ddof=0\<close>: the population standard deviation.\<close>

definition np_std :: "real list \<Rightarrow> real" where
  "np_std xs = sqrt (sum_list (map (\<lambda>x. (x - np_mean xs)\<^sup>2) xs) / real (length xs))"

definition np_median :: "real list \<Rightarrow> real" where
  "np_median xs =
     (let s = sort xs; n = length s
      in if even n then (s ! (n div 2 - 1) + s ! (n div 2)) / 2 else s ! (n div 2))"

text \<open>\<^verbatim>\<open>np.max\<close> and \<^verbatim>\<open>np.argmax\<close> (first position of the maximum) of a non-empty list.\<close>

definition np_max :: "real list \<Rightarrow> real" where
  "np_max xs = fold max (tl xs) (hd xs)"

definition np_argmax :: "real list \<Rightarrow> nat" where
  "np_argmax xs = length (takeWhile (\<lambda>v. v \<noteq> np_max xs) xs)"

text \<open>The expression \<^verbatim>\<open>np.sqrt((a[0] - b[0])**2 + (a[1] - b[1])**2)\<close>.\<close>

definition distance :: "position \<Rightarrow> position \<Rightarrow> real" where
  "distance a b = sqrt ((fst a - fst b)\<^sup>2 + (snd a - snd b)\<^sup>2)"

subsection \<open>Momentum prediction and adaptive search radius\<close>

text \<open>\<^verbatim>\<open>_predict_position_with_momentum(expected_pos)\<close>.\<close>

definition predict_position_with_momentum :: "tracking_history \<Rightarrow> position \<Rightarrow> position" where
  "predict_position_with_momentum h expected_pos =
     (if length (position_history h) < 2 then expected_pos
      else
        (let velocities = velocity_history h;
             n = length velocities;
             weights = map (\<lambda>i. real (i + 1) / real n) [0..<n]
         in if velocities \<noteq> []
            then
              (let avg_vx = sum_list (map (\<lambda>(v, w). fst v * w) (zip velocities weights))
                              / sum_list weights;
                   avg_vy = sum_list (map (\<lambda>(v, w). snd v * w) (zip velocities weights))
                              / sum_list weights
               in (fst expected_pos + avg_vx, snd expected_pos + avg_vy))
            else expected_pos))"

text \<open>
  \<^verbatim>\<open>_calculate_adaptive_search_radius(base_radius)\<close>. The base radius comes from the
  \<^verbatim>\<open>IntVar\<close> \<^verbatim>\<open>search_radius_var\<close> (or the default 25), so it is an integer; the source
  applies \<^verbatim>\<open>int(...)\<close> to the widened radius before clamping.
\<close>

definition calculate_adaptive_search_radius :: "int \<Rightarrow> tracking_history \<Rightarrow> int" where
  "calculate_adaptive_search_radius base_radius h =
     (if length (position_history h) < 3 then base_radius
      else
        (let recent_positions = last_n 5 (position_history h);
             x_std = np_std (map fst recent_positions);
             y_std = np_std (map snd recent_positions);
             position_variance = sqrt (x_std\<^sup>2 + y_std\<^sup>2);
             adaptive_radius = py_int (real_of_int base_radius + 2 * position_variance)
         in max base_radius (min adaptive_radius (base_radius * 2))))"

text \<open>
  The radius as the specification words it: no truncation, clamped between the base and
  twice the base.
\<close>

definition spec_adaptive_radius :: "real \<Rightarrow> tracking_history \<Rightarrow> real" where
  "spec_adaptive_radius base h =
     (if length (position_history h) < 3 then base
      else
        (let recent = last_n 5 (position_history h);
             std_x = np_std (map fst recent);
             std_y = np_std (map snd recent)
         in max base (min (base + 2 * sqrt (std_x\<^sup>2 + std_y\<^sup>2)) (2 * base))))"

subsection \<open>Pixel planes\<close>

text \<open>
  A 2-D array of shape \<open>(height, width)\<close>; \<open>pixel p y x\<close> is \<^verbatim>\<open>p[y, x]\<close> for indices
  inside the shape.
\<close>

record plane =
  height :: nat
  width :: nat
  pixel :: "nat \<Rightarrow> nat \<Rightarrow> real"

text \<open>
  Python slice \<^verbatim>\<open>[start:stop]\<close> on an axis of length \<open>n\<close>: a negative bound counts from
  the end, both bounds are clipped to the axis; the result is the offset of the first
  selected index and the number of selected indices.
\<close>

definition slice_range :: "int \<Rightarrow> int \<Rightarrow> nat \<Rightarrow> nat \<times> nat" where
  "slice_range start stop n =
     (let lo = nat (if start < 0 then max (start + int n) 0 else min start (int n));
          hi = nat (if stop < 0 then max (stop + int n) 0 else min stop (int n))
      in (lo, hi - lo))"

text \<open>\<^verbatim>\<open>p[y0:y1, x0:x1]\<close>.\<close>

definition slice2 :: "plane \<Rightarrow> int \<Rightarrow> int \<Rightarrow> int \<Rightarrow> int \<Rightarrow> plane" where
  "slice2 p y0 y1 x0 x1 =
     (let (oy, ny) = slice_range y0 y1 (height p);
          (ox, nx) = slice_range x0 x1 (width p)
      in \<lparr>height = ny, width = nx, pixel = (\<lambda>y x. pixel p (oy + y) (ox + x))\<rparr>)"

definition size_of :: "plane \<Rightarrow> nat" where
  "size_of p = height p * width p"

text \<open>Index pairs \<open>(y, x)\<close> and values in row-major order.\<close>

definition indices :: "plane \<Rightarrow> (nat \<times> nat) list" where
  "indices p = concat (map (\<lambda>y. map (\<lambda>x. (y, x)) [0..<width p]) [0..<height p])"

definition flat :: "plane \<Rightarrow> real list" where
  "flat p = map (\<lambda>(y, x). pixel p y x) (indices p)"

text \<open>\<^verbatim>\<open>np.maximum(p - threshold, 0)\<close>.\<close>

definition clip_above :: "plane \<Rightarrow> real \<Rightarrow> plane" where
  "clip_above p threshold = p\<lparr>pixel := (\<lambda>y x. max (pixel p y x - threshold) 0)\<rparr>"

definition np_sum :: "plane \<Rightarrow> real" where
  "np_sum p = sum_list (flat p)"

text \<open>
  The intensity-weighted centre \<open>(x, y)\<close> of a weight plane:
  \<^verbatim>\<open>np.sum(x_coords * w) / np.sum(w)\<close> and likewise for \<open>y\<close>. This is what
  \<^verbatim>\<open>photutils.centroids.centroid_com\<close> returns and what the peak method writes out.
\<close>

definition centroid_com :: "plane \<Rightarrow> position" where
  "centroid_com w =
     (sum_list (map (\<lambda>(y, x). real x * pixel w y x) (indices w)) / np_sum w,
      sum_list (map (\<lambda>(y, x). real y * pixel w y x) (indices w)) / np_sum w)"


subsection \<open>Centroid tracker\<close>

text \<open>
  \<^verbatim>\<open>_calculate_adaptive_threshold(cutout)\<close>. The argument \<open>sigma_clipped_stats\<close> stands for
  \<^verbatim>\<open>astropy.stats.sigma_clipped_stats(cutout, sigma=3.0)\<close>, returning
  \<open>(mean, median, std)\<close>; \<open>None\<close> is any exception of that call, which the bare
  \<^verbatim>\<open>except\<close> replaces by the plain NumPy statistics. The result is
  \<open>(threshold, peak_brightness)\<close>.
\<close>

type_synonym clipped_stats = "plane \<Rightarrow> (real \<times> real \<times> real) option"

definition calculate_adaptive_threshold :: "clipped_stats \<Rightarrow> plane \<Rightarrow> real \<times> real" where
  "calculate_adaptive_threshold sigma_clipped_stats cutout =
     (let (mean, median, std) =
            (case sigma_clipped_stats cutout of
               Some st \<Rightarrow> st
             | None \<Rightarrow> (np_mean (flat cutout), np_median (flat cutout), np_std (flat cutout)));
          peak_brightness = np_max (flat cutout);
          brightness_ratio = (peak_brightness - median) / (std + 1 / 1000000);
          threshold_multiplier =
            (if brightness_ratio > 10 then 2 else if brightness_ratio > 5 then 5 / 2 else 3);
          threshold = median + threshold_multiplier * std
      in (threshold, peak_brightness))"

text \<open>
  The validation shared by both centroid methods: within 1.5 adaptive radii of the
  expected position and more than 5 pixels from every edge of the plane.
\<close>

definition acceptable :: "plane \<Rightarrow> position \<Rightarrow> int \<Rightarrow> position \<Rightarrow> bool" where
  "acceptable image_data expected_pos adaptive_radius tracked \<longleftrightarrow>
     distance tracked expected_pos \<le> real_of_int adaptive_radius * (3 / 2) \<and>
     5 < fst tracked \<and> fst tracked < real_of_int (int (width image_data) - 5) \<and>
     5 < snd tracked \<and> snd tracked < real_of_int (int (height image_data) - 5)"

text \<open>Step 5: centre of mass of the thresholded cutout.\<close>

definition method_center_of_mass ::
  "plane \<Rightarrow> plane \<Rightarrow> int \<Rightarrow> int \<Rightarrow> real \<Rightarrow> position \<Rightarrow> int \<Rightarrow> position option" where
  "method_center_of_mass image_data cutout x_min y_min threshold expected_pos adaptive_radius =
     (let star_region = clip_above cutout threshold
      in if 0 < np_sum star_region
         then
           (let (x_cen, y_cen) = centroid_com star_region;
                tracked = (x_cen + real_of_int x_min, y_cen + real_of_int y_min)
            in if acceptable image_data expected_pos adaptive_radius tracked
               then Some tracked else None)
         else None)"

text \<open>Step 6: brightest pixel, refined by a weighted centroid in an 11 by 11 window.\<close>

definition method_peak ::
  "plane \<Rightarrow> plane \<Rightarrow> int \<Rightarrow> int \<Rightarrow> real \<Rightarrow> position \<Rightarrow> int \<Rightarrow> position option" where
  "method_peak image_data cutout x_min y_min threshold expected_pos adaptive_radius =
     (let k = np_argmax (flat cutout);
          peak_y = int (k div width cutout);
          peak_x = int (k mod width cutout);
          window_size = 5;
          y_start = max 0 (peak_y - window_size);
          y_end = min (int (height cutout)) (peak_y + window_size + 1);
          x_start = max 0 (peak_x - window_size);
          x_end = min (int (width cutout)) (peak_x + window_size + 1);
          window = slice2 cutout y_start y_end x_start x_end;
          window_weights = clip_above window threshold
      in if 0 < np_sum window_weights
         then
           (let (cx, cy) = centroid_com window_weights;
                tracked = (cx + real_of_int x_start + real_of_int x_min,
                           cy + real_of_int y_start + real_of_int y_min)
            in if acceptable image_data expected_pos adaptive_radius tracked
               then Some tracked else None)
         else None)"

text \<open>Steps 1 to 3: the search centre and the bounds of the search region.\<close>

definition search_center :: "tracking_history \<Rightarrow> position \<Rightarrow> position" where
  "search_center h expected_pos =
     (let predicted_pos = predict_position_with_momentum h expected_pos
      in if predicted_pos \<noteq> expected_pos then predicted_pos else expected_pos)"

definition search_x_min :: "tracking_history \<Rightarrow> position \<Rightarrow> int \<Rightarrow> int" where
  "search_x_min h expected_pos search_radius =
     max 0 (py_int (fst (search_center h expected_pos))
              - calculate_adaptive_search_radius search_radius h)"

definition search_y_min :: "tracking_history \<Rightarrow> position \<Rightarrow> int \<Rightarrow> int" where
  "search_y_min h expected_pos search_radius =
     max 0 (py_int (snd (search_center h expected_pos))
              - calculate_adaptive_search_radius search_radius h)"

definition search_cutout :: "plane \<Rightarrow> tracking_history \<Rightarrow> position \<Rightarrow> int \<Rightarrow> plane" where
  "search_cutout image_data h expected_pos search_radius =
     (let adaptive_radius = calculate_adaptive_search_radius search_radius h;
          x_int = py_int (fst (search_center h expected_pos));
          y_int = py_int (snd (search_center h expected_pos));
          x_min = search_x_min h expected_pos search_radius;
          x_max = min (int (width image_data)) (x_int + adaptive_radius);
          y_min = search_y_min h expected_pos search_radius;
          y_max = min (int (height image_data)) (y_int + adaptive_radius)
      in slice2 image_data y_min y_max x_min x_max)"

text \<open>
  \<^verbatim>\<open>track_star_position(image_data, expected_pos, search_radius)\<close>, returning the
  position and the updated history. An \<open>expected_pos\<close> of \<open>None\<close> makes the first
  statement (\<^verbatim>\<open>x, y = expected_pos\<close>) raise; the outer handler then returns
  \<open>expected_pos\<close> as it is. On a 2-D plane of reals no other statement of the body can
  raise outside the two inner \<^verbatim>\<open>try\<close> blocks.
\<close>

definition track_star_position ::
  "clipped_stats \<Rightarrow> plane \<Rightarrow> position option \<Rightarrow> int \<Rightarrow> tracking_history
     \<Rightarrow> position option \<times> tracking_history" where
  "track_star_position sigma_clipped_stats image_data expected search_radius h =
     (case expected of
        None \<Rightarrow> (None, h)
      | Some expected_pos \<Rightarrow>
          (let predicted_pos = predict_position_with_momentum h expected_pos;
               adaptive_radius = calculate_adaptive_search_radius search_radius h;
               x_min = search_x_min h expected_pos search_radius;
               y_min = search_y_min h expected_pos search_radius;
               cutout = search_cutout image_data h expected_pos search_radius
           in if size_of cutout = 0 then (Some expected_pos, h)
              else
                (let (threshold, peak_brightness) =
                       calculate_adaptive_threshold sigma_clipped_stats cutout
                 in case method_center_of_mass image_data cutout x_min y_min threshold
                           expected_pos adaptive_radius of
                      Some tracked \<Rightarrow> (Some tracked, update_tracking_history tracked (8 / 10) h)
                    | None \<Rightarrow>
                        (case method_peak image_data cutout x_min y_min threshold
                                expected_pos adaptive_radius of
                           Some tracked \<Rightarrow>
                             (Some tracked, update_tracking_history tracked (6 / 10) h)
                         | None \<Rightarrow>
                             if predicted_pos \<noteq> expected_pos \<and>
                                distance predicted_pos expected_pos
                                  \<le> real_of_int adaptive_radius
                             then (Some predicted_pos,
                                   update_tracking_history predicted_pos (3 / 10) h)
                             else (Some expected_pos,
                                   update_tracking_history expected_pos (1 / 10) h)))))"


subsection \<open>Aperture photometry\<close>

datatype py_error = ValueError | TypeError | IndexError | UnboundLocalError | DecodeError

text \<open>
  The aperture objects of \<^verbatim>\<open>photutils.aperture\<close>. Their constructors validate the radii:
  \<^verbatim>\<open>CircularAperture\<close> requires a positive radius, \<^verbatim>\<open>CircularAnnulus\<close> requires positive
  radii with \<^verbatim>\<open>r_out > r_in\<close>, and each raises \<^verbatim>\<open>ValueError\<close> otherwise. The property
  \<^verbatim>\<open>area\<close> is the analytic area.
\<close>

datatype aperture = CircularAperture position real

datatype annulus = CircularAnnulus position real real

definition new_CircularAperture :: "position \<Rightarrow> real \<Rightarrow> py_error + aperture" where
  "new_CircularAperture pos r = (if 0 < r then Inr (CircularAperture pos r) else Inl ValueError)"

definition new_CircularAnnulus :: "position \<Rightarrow> real \<Rightarrow> real \<Rightarrow> py_error + annulus" where
  "new_CircularAnnulus pos r_in r_out =
     (if 0 < r_in \<and> 0 < r_out \<and> r_in < r_out
      then Inr (CircularAnnulus pos r_in r_out) else Inl ValueError)"

fun area_of_aperture :: "aperture \<Rightarrow> real" where
  "area_of_aperture (CircularAperture pos r) = pi * r\<^sup>2"

fun area_of_annulus :: "annulus \<Rightarrow> real" where
  "area_of_annulus (CircularAnnulus pos r_in r_out) = pi * (r_out\<^sup>2 - r_in\<^sup>2)"

text \<open>
  The measurements taken from photutils, as parameters of the model:
  \<^item> \<open>stats_sum\<close>: \<^verbatim>\<open>ApertureStats(data, aperture).sum\<close>;
  \<^item> \<open>stats_sum_aper_area\<close>: \<^verbatim>\<open>ApertureStats(data, aperture).sum_aper_area.value\<close> for an
    aperture that the edge of the data cuts, the area of the part of the aperture that
    lies on the data;
  \<^item> \<open>bkg_median\<close>, \<open>bkg_std\<close>, \<open>bkg_sum_aper_area\<close>: the same statistics of
    \<^verbatim>\<open>ApertureStats(data, annulus, sigma_clip=SigmaClip(sigma=3.0, maxiters=10))\<close>;
  \<^item> \<open>aperture_sum\<close>: \<^verbatim>\<open>aperture_photometry(data, aperture)['aperture_sum'][0]\<close>.
\<close>

record photutils =
  stats_sum :: "plane \<Rightarrow> aperture \<Rightarrow> real"
  stats_sum_aper_area :: "plane \<Rightarrow> aperture \<Rightarrow> real"
  bkg_median :: "plane \<Rightarrow> annulus \<Rightarrow> real"
  bkg_std :: "plane \<Rightarrow> annulus \<Rightarrow> real"
  bkg_sum_aper_area :: "plane \<Rightarrow> annulus \<Rightarrow> real"
  aperture_sum :: "plane \<Rightarrow> aperture \<Rightarrow> real"

text \<open>
  Pixel \<open>(x, y)\<close> of the data covers the square from \<open>x - 1/2\<close> to \<open>x + 1/2\<close> and from
  \<open>y - 1/2\<close> to \<open>y + 1/2\<close>, so the data cover \<open>-1/2 .. width - 1/2\<close> by
  \<open>-1/2 .. height - 1/2\<close>. An aperture lies on the data when its disk stays inside.
\<close>

fun on_image :: "plane \<Rightarrow> aperture \<Rightarrow> bool" where
  "on_image d (CircularAperture pos r) \<longleftrightarrow>
     - (1 / 2) \<le> fst pos - r \<and> fst pos + r \<le> real (width d) - 1 / 2 \<and>
     - (1 / 2) \<le> snd pos - r \<and> snd pos + r \<le> real (height d) - 1 / 2"

text \<open>
  \<^verbatim>\<open>ApertureStats(data, aperture).sum_aper_area.value\<close>: the area of the overlap of the
  aperture with the data, computed exactly (\<^verbatim>\<open>sum_method='exact'\<close>, the default). For an
  aperture that lies on the data it is the area of the disk.
\<close>

definition sum_aper_area :: "photutils \<Rightarrow> plane \<Rightarrow> aperture \<Rightarrow> real" where
  "sum_aper_area lib d a =
     (if on_image d a then area_of_aperture a else stats_sum_aper_area lib d a)"

record aperture_params =
  inner_radius :: real
  inner_annulus :: real
  outer_annulus :: real

text \<open>The per-channel entries of the result dictionary.\<close>

record channel =
  star_flux_raw :: real
  sky_background_total :: real
  sky_per_pixel :: real
  sky_std :: real
  star_flux_corrected :: real
  poisson_noise :: real

text \<open>
  The dictionary returned by the two photometry functions; \<open>channels\<close> lists the channel
  prefixes in the order in which the source stores them.
\<close>

record photometry =
  x_position :: real
  y_position :: real
  aperture_area :: real
  sky_annulus_area :: real
  channels :: "(string \<times> channel) list"

text \<open>\<^verbatim>\<open>np.sqrt(abs(star_flux_raw)) if star_flux_raw > 0 else 0\<close>.\<close>

definition poisson :: "real \<Rightarrow> real" where
  "poisson raw = (if 0 < raw then sqrt \<bar>raw\<bar> else 0)"

text \<open>\<^verbatim>\<open>perform_aperture_photometry(image_data, star_pos)\<close>, the grayscale path.\<close>

definition perform_aperture_photometry ::
  "photutils \<Rightarrow> aperture_params \<Rightarrow> plane \<Rightarrow> position \<Rightarrow> py_error + photometry" where
  "perform_aperture_photometry lib params image_data star_pos =
     (case new_CircularAperture star_pos (inner_radius params) of
        Inl e \<Rightarrow> Inl e
      | Inr star_aperture \<Rightarrow>
          if outer_annulus params \<le> inner_annulus params
          then
            (let raw = stats_sum lib image_data star_aperture
             in Inr \<lparr>x_position = fst star_pos, y_position = snd star_pos,
                     aperture_area = area_of_aperture star_aperture,
                     sky_annulus_area = 0,
                     channels = [(''gray'',
                       \<lparr>star_flux_raw = raw, sky_background_total = 0, sky_per_pixel = 0,
                        sky_std = 0, star_flux_corrected = raw,
                        poisson_noise = poisson raw\<rparr>)]\<rparr>)
          else
            (case new_CircularAnnulus star_pos (inner_annulus params) (outer_annulus params) of
               Inl e \<Rightarrow> Inl e
             | Inr sky_annulus \<Rightarrow>
                 (let raw = stats_sum lib image_data star_aperture;
                      sky_median = bkg_median lib image_data sky_annulus;
                      sky_sd = bkg_std lib image_data sky_annulus;
                      sky_pixels_count = py_int (bkg_sum_aper_area lib image_data sky_annulus);
                      background = sky_median * sum_aper_area lib image_data star_aperture
                  in Inr \<lparr>x_position = fst star_pos, y_position = snd star_pos,
                          aperture_area = area_of_aperture star_aperture,
                          sky_annulus_area = real_of_int sky_pixels_count,
                          channels = [(''gray'',
                            \<lparr>star_flux_raw = raw, sky_background_total = background,
                             sky_per_pixel = sky_median, sky_std = sky_sd,
                             star_flux_corrected = raw - background,
                             poisson_noise = poisson raw\<rparr>)]\<rparr>)))"

text \<open>One channel of \<^verbatim>\<open>perform_rgb_photometry\<close>: the body of its loop.\<close>

definition measure_channel :: "photutils \<Rightarrow> plane \<Rightarrow> aperture \<Rightarrow> annulus \<Rightarrow> channel" where
  "measure_channel lib channel_data star_aperture sky_annulus =
     (let sky_median = bkg_median lib channel_data sky_annulus;
          sky_sd = bkg_std lib channel_data sky_annulus;
          raw = aperture_sum lib channel_data star_aperture;
          background = sky_median * area_of_aperture star_aperture
      in \<lparr>star_flux_raw = raw, sky_background_total = background,
          sky_per_pixel = sky_median, sky_std = sky_sd,
          star_flux_corrected = raw - background, poisson_noise = poisson raw\<rparr>)"

text \<open>
  \<^verbatim>\<open>perform_rgb_photometry(rgb_data, gray_data, star_pos)\<close>: both apertures are built
  first, whatever the radii are.
\<close>

definition perform_rgb_photometry ::
  "photutils \<Rightarrow> aperture_params \<Rightarrow> plane \<times> plane \<times> plane \<Rightarrow> plane \<Rightarrow> position
     \<Rightarrow> py_error + photometry" where
  "perform_rgb_photometry lib params rgb_data gray_data star_pos =
     (case new_CircularAperture star_pos (inner_radius params) of
        Inl e \<Rightarrow> Inl e
      | Inr star_aperture \<Rightarrow>
          (case new_CircularAnnulus star_pos (inner_annulus params) (outer_annulus params) of
             Inl e \<Rightarrow> Inl e
           | Inr sky_annulus \<Rightarrow>
               (let (r, g, b) = rgb_data
                in Inr \<lparr>x_position = fst star_pos, y_position = snd star_pos,
                        aperture_area = area_of_aperture star_aperture,
                        sky_annulus_area = area_of_annulus sky_annulus,
                        channels =
                          [(''r'', measure_channel lib r star_aperture sky_annulus),
                           (''g'', measure_channel lib g star_aperture sky_annulus),
                           (''b'', measure_channel lib b star_aperture sky_annulus),
                           (''gray'', measure_channel lib gray_data star_aperture sky_annulus)]\<rparr>)))"


subsection \<open>Session state\<close>

text \<open>
  A decoded FITS frame: a 2-D plane, or three planes when the data has shape
  \<open>(3, height, width)\<close>. The tracking plane of an RGB frame is
  \<^verbatim>\<open>np.mean(original_data, axis=0)\<close>.
\<close>

datatype frame = Gray plane | RGB plane plane plane

fun tracking_plane :: "frame \<Rightarrow> plane" where
  "tracking_plane (Gray p) = p"
| "tracking_plane (RGB r g b) =
     \<lparr>height = height r, width = width r,
      pixel = (\<lambda>y x. (pixel r y x + pixel g y x + pixel b y x) / 3)\<rparr>"

text \<open>One record of \<^verbatim>\<open>self.photometry_results\<close>.\<close>

record photometry_result =
  image_index :: nat
  tracked_position :: position
  movement_pixels :: real
  is_rgb :: bool
  measurements :: photometry

datatype pause_mode = Preselection | Batch | Sequential | Regular

text \<open>Messages of \<^verbatim>\<open>log_status\<close> and of the logger that the model keeps.\<close>

datatype event =
    Processing nat
  | ErrorProcessing nat
  | ErrorFrame nat
  | FrameProcessed nat
  | BatchStopped
  | PositionUpdated nat
  | PositionSet nat
  | PositionCleared nat
  | NothingToClear nat
  | MarkedForReprocessing nat

text \<open>
  The attributes of the GUI object that the modelled methods read or write. Each entry of
  \<open>fits_files\<close> is what decoding that file yields: \<open>None\<close> when reading it raises.
  \<open>current_image\<close> stands for \<^verbatim>\<open>current_image_data\<close> together with the derived
  \<^verbatim>\<open>current_image_rgb\<close> and \<^verbatim>\<open>current_image_grayscale\<close>.
\<close>

record session =
  fits_files :: "frame option list"
  paused :: bool
  paused_tracking_mode :: "pause_mode option"
  current_frame_index :: nat
  preselected_positions :: "position option list"
  frame_positions :: "position option list"
  photometry_results :: "photometry_result list"
  batch_processing_mode :: bool
  sequential_mode :: bool
  tracking_enabled :: bool
  search_radius :: int
  params :: aperture_params
  current_image :: "frame option"
  selected_star_pos :: "position option"
  history :: tracking_history
  status_log :: "event list"

text \<open>
  The collaborators outside the class: the sigma-clipped statistics, photutils, and the
  dialog of \<^verbatim>\<open>manual_star_reposition\<close> (\<open>None\<close> when the user gives no position).
\<close>

record env =
  clip_stats :: clipped_stats
  phot_lib :: photutils
  manual_star_reposition :: "nat \<Rightarrow> position option \<Rightarrow> position option"

definition log_event :: "event \<Rightarrow> session \<Rightarrow> session" where
  "log_event e s = s\<lparr>status_log := status_log s @ [e]\<rparr>"

subsection \<open>Processing one image\<close>

datatype 'a attempt = Done 'a | Cancelled | Raised py_error

text \<open>
  The mode dispatch of \<^verbatim>\<open>process_single_image\<close>: the tracked position and the movement.
  Indexing \<open>None\<close> raises \<^verbatim>\<open>TypeError\<close>, indexing the empty list \<^verbatim>\<open>IndexError\<close>;
  the debug messages format \<^verbatim>\<open>tracked_pos[0]\<close> or \<^verbatim>\<open>expected_pos[0]\<close>, so a missing
  position raises there at the latest.
\<close>

definition select_position ::
  "env \<Rightarrow> session \<Rightarrow> plane \<Rightarrow> position option \<Rightarrow> nat
     \<Rightarrow> (position \<times> real) attempt \<times> tracking_history" where
  "select_position env s tracking_data expected_pos i =
     (if batch_processing_mode s then
        (case expected_pos of
           None \<Rightarrow> (Raised TypeError, history s)
         | Some tracked_pos \<Rightarrow>
             if i = 0 then (Done (tracked_pos, 0), history s)
             else
               (case preselected_positions s of
                  [] \<Rightarrow> (Raised IndexError, history s)
                | None # rest \<Rightarrow> (Raised TypeError, history s)
                | Some first_pos # rest \<Rightarrow>
                    (Done (tracked_pos, distance tracked_pos first_pos), history s)))
      else if i = 0 then
        (case expected_pos of
           None \<Rightarrow> (Raised TypeError, history s)
         | Some tracked_pos \<Rightarrow> (Done (tracked_pos, 0), history s))
      else if tracking_enabled s then
        (case expected_pos of
           None \<Rightarrow> (Raised TypeError, history s)
         | Some e \<Rightarrow>
             (case track_star_position (clip_stats env) tracking_data expected_pos
                     (search_radius s) (history s) of
                (Some tracked_pos, h) \<Rightarrow> (Done (tracked_pos, distance tracked_pos e), h)
              | (None, h) \<Rightarrow>
                  (case manual_star_reposition env i expected_pos of
                     None \<Rightarrow> (Cancelled, h)
                   | Some tracked_pos \<Rightarrow> (Done (tracked_pos, distance tracked_pos e), h))))
      else
        (case manual_star_reposition env i expected_pos of
           None \<Rightarrow> (Cancelled, history s)
         | Some tracked_pos \<Rightarrow>
             (case expected_pos of
                None \<Rightarrow> (Raised TypeError, history s)
              | Some e \<Rightarrow> (Done (tracked_pos, distance tracked_pos e), history s))))"

definition measure_frame ::
  "env \<Rightarrow> aperture_params \<Rightarrow> frame \<Rightarrow> position \<Rightarrow> py_error + photometry" where
  "measure_frame env ap fr star_pos =
     (case fr of
        RGB r g b \<Rightarrow>
          perform_rgb_photometry (phot_lib env) ap (r, g, b) (tracking_plane fr) star_pos
      | Gray p \<Rightarrow> perform_aperture_photometry (phot_lib env) ap p star_pos)"

text \<open>
  \<^verbatim>\<open>process_single_image(fits_file, expected_pos, image_index)\<close>. The first argument is
  the decoding of the file. Every exception of the body is caught: the handler logs the
  error and returns \<open>None\<close>. The display update and the metadata extraction do not affect
  the modelled state.
\<close>

definition process_single_image ::
  "env \<Rightarrow> session \<Rightarrow> frame option \<Rightarrow> position option \<Rightarrow> nat
     \<Rightarrow> photometry_result option \<times> session" where
  "process_single_image env s fits_file expected_pos i =
     (let s0 = log_event (Processing i) s
      in case fits_file of
           None \<Rightarrow> (None, log_event (ErrorProcessing i) s0)
         | Some fr \<Rightarrow>
             (case select_position env s0 (tracking_plane fr) expected_pos i of
                (Raised e, h) \<Rightarrow> (None, log_event (ErrorProcessing i) (s0\<lparr>history := h\<rparr>))
              | (Cancelled, h) \<Rightarrow> (None, s0\<lparr>history := h\<rparr>)
              | (Done (tracked_pos, movement), h) \<Rightarrow>
                  (case measure_frame env (params s0) fr tracked_pos of
                     Inl e \<Rightarrow> (None, log_event (ErrorProcessing i) (s0\<lparr>history := h\<rparr>))
                   | Inr phot \<Rightarrow>
                       (Some \<lparr>image_index = i, tracked_position = tracked_pos,
                              movement_pixels = movement,
                              is_rgb = (case fr of RGB r g b \<Rightarrow> True | Gray p \<Rightarrow> False),
                              measurements = phot\<rparr>,
                        s0\<lparr>history := h\<rparr>))))"

subsection \<open>Batch processing\<close>

text \<open>
  The loop of \<^verbatim>\<open>process_batch_photometry\<close> over
  \<^verbatim>\<open>enumerate(zip(self.fits_files[:len(self.preselected_positions)], self.preselected_positions))\<close>.
  \<open>stop i\<close> says whether \<^verbatim>\<open>stop_processing\<close> is seen set at iteration \<open>i\<close>; the flag is
  written by the GUI thread, so it is an input of the model. Waiting while paused changes
  nothing of the state and is not modelled.
\<close>

fun batch_loop ::
  "env \<Rightarrow> (nat \<Rightarrow> bool) \<Rightarrow> nat \<Rightarrow> (frame option \<times> position option) list \<Rightarrow> session
     \<Rightarrow> session" where
  "batch_loop env stop i [] s = s"
| "batch_loop env stop i ((fits_file, star_pos) # rest) s =
     (if stop i then log_event BatchStopped s
      else
        (case process_single_image env s fits_file star_pos i of
           (Some result, s1) \<Rightarrow>
             batch_loop env stop (Suc i) rest
               (s1\<lparr>photometry_results := photometry_results s1 @ [result]\<rparr>)
         | (None, s1) \<Rightarrow> batch_loop env stop (Suc i) rest s1))"

definition process_batch_photometry :: "env \<Rightarrow> (nat \<Rightarrow> bool) \<Rightarrow> session \<Rightarrow> session" where
  "process_batch_photometry env stop s =
     (batch_loop env stop 0
        (zip (take (length (preselected_positions s)) (fits_files s)) (preselected_positions s))
        s)\<lparr>batch_processing_mode := False\<rparr>"

text \<open>
  \<^verbatim>\<open>start_automatic_batch_processing\<close> up to the start of the worker: the state in which
  the batch loop begins.
\<close>

definition start_automatic_batch_processing :: "session \<Rightarrow> session" where
  "start_automatic_batch_processing s =
     s\<lparr>batch_processing_mode := True, photometry_results := [], history := empty_history\<rparr>"


subsection \<open>Sequential manual mode\<close>

text \<open>
  \<^verbatim>\<open>process_current_frame(star_pos)\<close>. Any exception of the body (a frame index outside
  the file list, no loaded image, a failing measurement, a missing previous position) is
  caught and only logged; no result is appended then.
\<close>

definition process_current_frame :: "env \<Rightarrow> position \<Rightarrow> session \<Rightarrow> session" where
  "process_current_frame env star_pos s =
     (let frame_index = current_frame_index s
      in if length (fits_files s) \<le> frame_index then log_event (ErrorFrame frame_index) s
         else
           (case current_image s of
              None \<Rightarrow> log_event (ErrorFrame frame_index) s
            | Some fr \<Rightarrow>
                (case measure_frame env (params s) fr star_pos of
                   Inl e \<Rightarrow> log_event (ErrorFrame frame_index) s
                 | Inr phot \<Rightarrow>
                     (case (if 0 < frame_index \<and> 1 < length (frame_positions s)
                            then
                              (if length (frame_positions s) \<le> frame_index - 1
                               then Inl IndexError
                               else
                                 (case frame_positions s ! (frame_index - 1) of
                                    None \<Rightarrow> Inl TypeError
                                  | Some prev_pos \<Rightarrow> Inr (distance star_pos prev_pos)))
                            else Inr 0) of
                        Inl e \<Rightarrow> log_event (ErrorFrame frame_index) s
                      | Inr movement \<Rightarrow>
                          log_event (FrameProcessed frame_index)
                            (s\<lparr>photometry_results := photometry_results s @
                                 [\<lparr>image_index = frame_index, tracked_position = star_pos,
                                   movement_pixels = movement,
                                   is_rgb = (case fr of RGB r g b \<Rightarrow> True | Gray p \<Rightarrow> False),
                                   measurements = phot\<rparr>]\<rparr>)))))"

text \<open>
  \<^verbatim>\<open>on_sequential_tracking_click(event)\<close> for a click at \<open>(x, y)\<close> inside the axes: the
  position is stored, then the frame is processed.
\<close>

definition on_sequential_tracking_click :: "env \<Rightarrow> real \<Rightarrow> real \<Rightarrow> session \<Rightarrow> session" where
  "on_sequential_tracking_click env x y s =
     (if \<not> sequential_mode s then s
      else process_current_frame env (x, y)
             (s\<lparr>frame_positions := frame_positions s @ [Some (x, y)],
                selected_star_pos := Some (x, y)\<rparr>))"

subsection \<open>Pause navigation\<close>










subsection \<open>Auxiliary notions and sample inputs\<close>

text \<open>
  Two tracking histories: one whose recent x-positions have standard deviation 3/4 (and
  constant y), one with standard deviations 3 and 4.
\<close>

definition jitter_history :: tracking_history where
  "jitter_history =
     \<lparr>position_history = [(0, 0), (3 / 2, 0), (0, 0), (3 / 2, 0)],
      velocity_history = [(3 / 2, 0), (- (3 / 2), 0), (3 / 2, 0)],
      tracking_confidence = [8 / 10, 8 / 10, 8 / 10, 8 / 10]\<rparr>"

definition swing_history :: tracking_history where
  "swing_history =
     \<lparr>position_history = [(- 3, - 4), (3, 4), (- 3, - 4), (3, 4)],
      velocity_history = [(6, 8), (- 6, - 8), (6, 8)],
      tracking_confidence = [8 / 10, 8 / 10, 8 / 10, 8 / 10]\<rparr>"

text \<open>The aperture radii set in \<^verbatim>\<open>__init__\<close>, and radii that disable sky subtraction.\<close>

definition default_params :: aperture_params where
  "default_params = \<lparr>inner_radius = 9, inner_annulus = 12, outer_annulus = 17\<rparr>"

definition no_sky_params :: aperture_params where
  "no_sky_params = \<lparr>inner_radius = 9, inner_annulus = 12, outer_annulus = 12\<rparr>"

text \<open>A featureless 100 by 100 plane.\<close>

definition flat_plane :: plane where
  "flat_plane = \<lparr>height = 100, width = 100, pixel = (\<lambda>y x. 7)\<rparr>"

text \<open>
  Library answers for a star of raw flux 1000 on a sky of median 5 whose aperture lies on
  the image (\<open>sample_lib\<close>: the summed area is the whole disk), and for a star whose
  aperture is centred on an edge of the image (\<open>edge_lib\<close>: half of the disk lies on
  the image; it is used for such an aperture only).
\<close>

definition sample_lib :: photutils where
  "sample_lib =
     \<lparr>stats_sum = (\<lambda>d a. 1000), stats_sum_aper_area = (\<lambda>d a. area_of_aperture a),
      bkg_median = (\<lambda>d a. 5), bkg_std = (\<lambda>d a. 1),
      bkg_sum_aper_area = (\<lambda>d a. area_of_annulus a), aperture_sum = (\<lambda>d a. 1000)\<rparr>"

definition edge_lib :: photutils where
  "edge_lib = sample_lib\<lparr>stats_sum_aper_area := (\<lambda>d a. area_of_aperture a / 2)\<rparr>"

text \<open>The channel of a measurement stored under a prefix, when there is one.\<close>

definition channel_named :: "string \<Rightarrow> py_error + photometry \<Rightarrow> channel option" where
  "channel_named name res = (case res of Inl e \<Rightarrow> None | Inr m \<Rightarrow> map_of (channels m) name)"

text \<open>
  The relations between the entries of one channel when the sky is subtracted over an
  aperture of the given area.
\<close>

definition channel_ok :: "real \<Rightarrow> channel \<Rightarrow> bool" where
  "channel_ok area c \<longleftrightarrow>
     sky_background_total c = sky_per_pixel c * area \<and>
     star_flux_corrected c = star_flux_raw c - sky_background_total c \<and>
     poisson_noise c = sqrt (max (star_flux_raw c) 0)"

text \<open>
  Collaborators for the sample runs: statistics of a featureless cutout, the sample
  library, and a user who gives no position.
\<close>

definition sample_stats :: clipped_stats where
  "sample_stats = (\<lambda>c. Some (7, 7, 0))"

definition sample_env :: env where
  "sample_env =
     \<lparr>clip_stats = sample_stats, phot_lib = sample_lib,
      manual_star_reposition = (\<lambda>i p. None)\<rparr>"


text \<open>
  A result is computed from a list of positions when the list holds, at the index of the
  result's frame, the position at which the result was measured.
\<close>

definition computed_from :: "position option list \<Rightarrow> photometry_result \<Rightarrow> bool" where
  "computed_from ps r \<longleftrightarrow>
     image_index r < length ps \<and> ps ! image_index r = Some (tracked_position r)"

text \<open>
  A session over three grayscale frames, paused in sequential mode at frame 0, with a
  position for every frame and tracking switched off.
\<close>

definition sample_session :: session where
  "sample_session =
     \<lparr>fits_files = [Some (Gray flat_plane), Some (Gray flat_plane), Some (Gray flat_plane)],
      paused = True,
      paused_tracking_mode = Some Sequential,
      current_frame_index = 0,
      preselected_positions = [Some (0, 0), Some (3, 4), Some (3, 4)],
      frame_positions = [Some (0, 0), Some (3, 4), Some (3, 4)],
      photometry_results = [],
      batch_processing_mode = False,
      sequential_mode = True,
      tracking_enabled = False,
      search_radius = 25,
      params = default_params,
      current_image = Some (Gray flat_plane),
      selected_star_pos = None,
      history = empty_history,
      status_log = []\<rparr>"



text \<open>The sample session with a first file that cannot be decoded.\<close>

definition first_undecodable_session :: session where
  "first_undecodable_session =
     sample_session\<lparr>fits_files := [None, Some (Gray flat_plane), Some (Gray flat_plane)]\<rparr>"

text \<open>The stop flag of a batch run that nobody interrupts.\<close>

definition never_stop :: "nat \<Rightarrow> bool" where
  "never_stop i = False"

text \<open>The frame indices of the \<open>Processing\<close> messages of a log, in order.\<close>

fun processing_indices :: "event list \<Rightarrow> nat list" where
  "processing_indices [] = []"
| "processing_indices (Processing i # es) = i # processing_indices es"
| "processing_indices (e # es) = processing_indices es"

text \<open>What processing frame \<open>i\<close> yields from a given state.\<close>

definition outcome ::
  "env \<Rightarrow> session \<Rightarrow> frame option \<Rightarrow> position option \<Rightarrow> nat \<Rightarrow> photometry_result option" where
  "outcome env s fits_file star_pos i = fst (process_single_image env s fits_file star_pos i)"

text \<open>
  The sample session with a missing position for frame 1 and a fourth file, and one whose
  second file cannot be decoded.
\<close>

definition gap_session :: session where
  "gap_session =
     sample_session
       \<lparr>fits_files := [Some (Gray flat_plane), Some (Gray flat_plane), Some (Gray flat_plane),
                       Some (Gray flat_plane)],
        preselected_positions := [Some (0, 0), None, Some (3, 4)]\<rparr>"

definition middle_undecodable_session :: session where
  "middle_undecodable_session =
     sample_session\<lparr>fits_files := [Some (Gray flat_plane), None, Some (Gray flat_plane)]\<rparr>"

text \<open>
  A whole uninterrupted batch run from its start, and the number of frames that have both
  a file and an entry in the position list.
\<close>

definition batch_run :: "env \<Rightarrow> session \<Rightarrow> session" where
  "batch_run env s = process_batch_photometry env never_stop (start_automatic_batch_processing s)"

definition batch_frames :: "session \<Rightarrow> nat" where
  "batch_frames s = min (length (fits_files s)) (length (preselected_positions s))"

text \<open>The state after one iteration of the batch loop, in terms of its outcome.\<close>

definition step_state ::
  "env \<Rightarrow> session \<Rightarrow> frame option \<Rightarrow> position option \<Rightarrow> nat \<Rightarrow> session" where
  "step_state env s f p i =
     (case outcome env s f p i of
        Some r \<Rightarrow> (log_event (Processing i) s)\<lparr>photometry_results := photometry_results s @ [r]\<rparr>
      | None \<Rightarrow> log_event (ErrorProcessing i) (log_event (Processing i) s))"

section \<open>Properties\<close>

subsection \<open>Tracking history: bounded, first in first out\<close>

lemma deltas_snoc:
  "xs \<noteq> [] \<Longrightarrow>
   deltas (xs @ [p]) = deltas xs @ [(fst p - fst (last xs), snd p - snd (last xs))]"
  by (induction xs rule: deltas.induct) auto

lemma length_last_n: "length (last_n n xs) = min n (length xs)"
  by (auto simp: last_n_def)

lemma last_n_snoc:
  "last_n n (xs @ [x]) =
   (if n < length (last_n n xs @ [x]) then tl (last_n n xs @ [x]) else last_n n xs @ [x])"
proof (cases "n \<le> length xs")
  case True
  then have e: "Suc (length xs) - n = Suc (length xs - n)" by simp
  have "tl (drop (length xs - n) xs @ [x]) = tl (drop (length xs - n) (xs @ [x]))"
    by simp
  also have "\<dots> = drop (Suc (length xs - n)) (xs @ [x])"
    by (simp only: tl_drop drop_Suc)
  finally show ?thesis using True e by (simp add: last_n_def)
next
  case False
  then show ?thesis by (simp add: last_n_def)
qed

lemma last_last_n: "xs \<noteq> [] \<Longrightarrow> 0 < n \<Longrightarrow> last (last_n n xs) = last xs"
  by (simp add: last_n_def last_drop)

lemma nth_snoc_prev: "ys \<noteq> [] \<Longrightarrow> (ys @ [x]) ! (length (ys @ [x]) - 2) = last ys"
  by (simp add: nth_append last_conv_nth)

lemma push_all_snoc:
  "push_all (ps @ [(p, c)]) h = update_tracking_history p c (push_all ps h)"
  by (simp add: push_all_def)

lemma update_on_last_n:
  assumes "position_history h = last_n 5 (map fst ps)"
    and "tracking_confidence h = last_n 5 (map snd ps)"
    and "velocity_history h = last_n 5 (deltas (map fst ps))"
  shows "position_history (update_tracking_history p c h) = last_n 5 (map fst (ps @ [(p, c)]))"
    and "tracking_confidence (update_tracking_history p c h) =
           last_n 5 (map snd (ps @ [(p, c)]))"
    and "velocity_history (update_tracking_history p c h) =
           last_n 5 (deltas (map fst (ps @ [(p, c)])))"
proof -
  have len: "length (last_n 5 (map fst ps) @ [p]) = length (last_n 5 (map snd ps) @ [c])"
    by (simp add: length_last_n)
  show "position_history (update_tracking_history p c h) = last_n 5 (map fst (ps @ [(p, c)]))"
    using assms(1)
    by (simp add: update_tracking_history_def Let_def tracking_history_size_def
        last_n_snoc [of 5])
  show "tracking_confidence (update_tracking_history p c h) =
          last_n 5 (map snd (ps @ [(p, c)]))"
    using assms(1,2) len
    by (simp add: update_tracking_history_def Let_def tracking_history_size_def
        last_n_snoc [of 5])
  show "velocity_history (update_tracking_history p c h) =
          last_n 5 (deltas (map fst (ps @ [(p, c)])))"
  proof (cases "ps = []")
    case True
    then show ?thesis
      using assms
      by (simp add: update_tracking_history_def Let_def tracking_history_size_def last_n_def)
  next
    case False
    have ne: "last_n 5 (map fst ps) \<noteq> []"
    proof
      assume "last_n 5 (map fst ps) = []"
      then have "min 5 (length ps) = 0"
        using length_last_n [of 5 "map fst ps"] by simp
      then show False using False by (simp add: min_def split: if_splits)
    qed
    have two: "2 \<le> length (last_n 5 (map fst ps) @ [p])"
      using False by (cases ps) (auto simp: length_last_n)
    have prev: "(last_n 5 (map fst ps) @ [p]) ! (length (last_n 5 (map fst ps) @ [p]) - 2)
                  = last (map fst ps)"
      using nth_snoc_prev [OF ne] False by (simp add: last_last_n)
    have d: "deltas (map fst (ps @ [(p, c)])) =
               deltas (map fst ps) @
                 [(fst p - fst (last (map fst ps)), snd p - snd (last (map fst ps)))]"
      using False by (simp add: deltas_snoc)
    show ?thesis
      unfolding d using assms(1,3) two prev
      by (simp add: update_tracking_history_def Let_def tracking_history_size_def
          last_n_snoc [of 5 "deltas (map fst ps)"])
  qed
qed

lemma push_all_last_n:
  "position_history (push_all ps empty_history) = last_n 5 (map fst ps) \<and>
   tracking_confidence (push_all ps empty_history) = last_n 5 (map snd ps) \<and>
   velocity_history (push_all ps empty_history) = last_n 5 (deltas (map fst ps))"
proof (induction ps rule: rev_induct)
  case Nil
  then show ?case by (simp add: push_all_def empty_history_def last_n_def)
next
  case (snoc pc ps)
  obtain p c where pc: "pc = (p, c)" by (cases pc)
  from snoc show ?case unfolding pc push_all_snoc
    using update_on_last_n [of "push_all ps empty_history" ps p c] by blast
qed

text \<open>
  C9. After any finite sequence of pushes on a fresh tracking history, the position,
  confidence and velocity histories each hold at most 5 entries, and they hold exactly
  the 5 most recent entries in push order: the positions pushed last, their confidences,
  and the differences of consecutive pushed positions. So every eviction removes the
  oldest entry and keeps the order of the rest.
\<close>

theorem history_bounded_fifo:
  "length (position_history (push_all ps empty_history)) \<le> 5 \<and>
   length (tracking_confidence (push_all ps empty_history)) \<le> 5 \<and>
   length (velocity_history (push_all ps empty_history)) \<le> 5 \<and>
   position_history (push_all ps empty_history) = last_n 5 (map fst ps) \<and>
   tracking_confidence (push_all ps empty_history) = last_n 5 (map snd ps) \<and>
   velocity_history (push_all ps empty_history) = last_n 5 (deltas (map fst ps))"
  using push_all_last_n [of ps] by (simp add: length_last_n)

subsection \<open>Adaptive search radius\<close>

lemma sqrt_9_16: "sqrt (9 / 16) = 3 / 4"
  by (rule real_sqrt_unique) (simp_all add: power2_eq_square)

lemma std_jx: "np_std [0, 3 / 2, 0, 3 / 2] = 3 / 4"
  by (simp add: np_std_def np_mean_def power2_eq_square sqrt_9_16)

lemma std_zero4: "np_std [0, 0, 0, 0] = 0"
  by (simp add: np_std_def np_mean_def)

lemma jitter_code: "calculate_adaptive_search_radius 25 jitter_history = 26"
  apply (simp add: calculate_adaptive_search_radius_def jitter_history_def last_n_def std_jx std_zero4 Let_def py_int_def)
  done

lemma jitter_spec: "spec_adaptive_radius 25 jitter_history = 53 / 2"
  by (simp add: spec_adaptive_radius_def jitter_history_def last_n_def std_jx std_zero4 Let_def)

lemma std_3: "np_std [- 3, 3, - 3, 3] = 3"
  by (simp add: np_std_def np_mean_def power2_eq_square real_sqrt_unique)
lemma std_4: "np_std [- 4, 4, - 4, 4] = 4"
  by (simp add: np_std_def np_mean_def power2_eq_square real_sqrt_unique)
lemma sqrt_25: "sqrt 25 = 5"
  by (rule real_sqrt_unique) (simp_all add: power2_eq_square)

lemma swing_code: "calculate_adaptive_search_radius 25 swing_history = 35"
  by (simp add: calculate_adaptive_search_radius_def swing_history_def last_n_def std_3 std_4 Let_def py_int_def power2_eq_square sqrt_25)

lemma floor_clamp:
  fixes b :: int and v :: real
  assumes "0 \<le> b" "of_int b \<le> v"
  shows "max b (min \<lfloor>v\<rfloor> (b * 2)) = \<lfloor>max (of_int b) (min v (2 * of_int b))\<rfloor>"
proof (cases "v \<le> 2 * of_int b")
  case True
  then have "\<lfloor>v\<rfloor> \<le> 2 * b" by (simp add: floor_le_iff)
  moreover have "b \<le> \<lfloor>v\<rfloor>" using assms by (simp add: le_floor_iff)
  ultimately show ?thesis using True assms by (simp add: min_def max_def)
next
  case False
  have f: "\<lfloor>2 * real_of_int b\<rfloor> = 2 * b"
    using floor_of_int [of "2 * b", where ?'a = real] by simp
  from False have "2 * b \<le> \<lfloor>v\<rfloor>" by (simp add: le_floor_iff)
  then show ?thesis using False assms f by (simp add: min_def max_def)
qed

text \<open>
  C7 (as amended). For a base radius that is not negative, the adaptive search radius is
  the value the specification describes, rounded down to an integer: the base when fewer
  than 3 positions are recorded, and otherwise the base widened by twice the norm of the
  standard deviations of the last 5 recorded x- and y-positions, truncated by \<^verbatim>\<open>int\<close>
  and clamped between the base and twice the base.
\<close>

theorem adaptive_radius_floor:
  assumes "0 \<le> base"
  shows "calculate_adaptive_search_radius base h = \<lfloor>spec_adaptive_radius (of_int base) h\<rfloor>"
proof (cases "length (position_history h) < 3")
  case True
  then show ?thesis by (simp add: calculate_adaptive_search_radius_def spec_adaptive_radius_def)
next
  case False
  define v where "v = sqrt ((np_std (map fst (last_n 5 (position_history h))))\<^sup>2 + (np_std (map snd (last_n 5 (position_history h))))\<^sup>2)"
  have "0 \<le> v" by (simp add: v_def)
  then have le: "real_of_int base \<le> real_of_int base + 2 * v" by simp
  then have nn: "0 \<le> real_of_int base + 2 * v" using assms by linarith
  show ?thesis using False floor_clamp [OF assms le] nn
    by (simp add: calculate_adaptive_search_radius_def spec_adaptive_radius_def Let_def py_int_def v_def)
qed


text \<open>Base 25 with standard deviations 3 and 4 gives 35.\<close>

theorem adaptive_radius_floor_witness:
  "(0::int) \<le> 25 \<and>
   calculate_adaptive_search_radius 25 swing_history =
     \<lfloor>spec_adaptive_radius (of_int 25) swing_history\<rfloor> \<and>
   calculate_adaptive_search_radius 25 swing_history = 35"
  using adaptive_radius_floor [of 25 swing_history] swing_code by simp

text \<open>
  With standard deviations 3/4 and 0 the specification's radius is 26.5, while the code
  returns 26.
\<close>

theorem adaptive_radius_counterexample:
  "real_of_int (calculate_adaptive_search_radius 25 jitter_history) \<noteq>
     spec_adaptive_radius 25 jitter_history"
  by (simp add: jitter_code jitter_spec)

subsection \<open>Aperture photometry\<close>

text \<open>Bounds on \<open>pi\<close> from Machin's formula and the alternating series of \<open>arctan\<close>.\<close>

lemma arctan_alternating_bounds:
  fixes x :: real
  assumes "0 < x" "x \<le> 1"
  shows "(\<Sum>i<2 * n. (- 1) ^ i * (1 / real (i * 2 + 1) * x ^ (i * 2 + 1))) \<le> arctan x"
    and "arctan x \<le> (\<Sum>i<2 * n + 1. (- 1) ^ i * (1 / real (i * 2 + 1) * x ^ (i * 2 + 1)))"
proof -
  have ax: "\<bar>x\<bar> \<le> 1" using assms by simp
  let ?a = "\<lambda>n. 1 / real (n * 2 + 1) * x ^ (n * 2 + 1)"
  have pos: "0 < ?a 0" using assms by simp
  have "(\<Sum>i. (- 1) ^ i * ?a i) \<in> {\<Sum>i<2 * n. (- 1) ^ i * ?a i .. \<Sum>i<2 * n + 1. (- 1) ^ i * ?a i}"
    using summable_Leibniz(2) [OF zeroseq_arctan_series [OF ax] monoseq_arctan_series [OF ax]] pos
    by blast
  then show "(\<Sum>i<2 * n. (- 1) ^ i * ?a i) \<le> arctan x"
    and "arctan x \<le> (\<Sum>i<2 * n + 1. (- 1) ^ i * ?a i)"
    by (simp_all add: arctan_series [OF ax])
qed

lemma arctan_fifth_bounds:
  "1 / 5 - 1 / 375 + 1 / 15625 - 1 / 546875 \<le> arctan (1 / 5)"
  "arctan (1 / 5) \<le> 1 / 5 - 1 / 375 + 1 / 15625 - 1 / 546875 + 1 / 17578125"
  using arctan_alternating_bounds(1) [of "1 / 5" 2] arctan_alternating_bounds(2) [of "1 / 5" 2]
  by (simp_all add: eval_nat_numeral)

lemma arctan_239_bounds:
  "1 / 239 - 1 / 40955757 \<le> arctan (1 / 239)"
  "arctan (1 / 239) \<le> 1 / 239"
  using arctan_alternating_bounds(1) [of "1 / 239" 1] arctan_alternating_bounds(2) [of "1 / 239" 0]
  by (simp_all add: eval_nat_numeral)

lemma pi_bounds: "314159 / 100000 < pi" "pi < 31416 / 10000"
proof -
  have "pi = 16 * arctan (1 / 5) - 4 * arctan (1 / 239)"
    using machin by simp
  then show "314159 / 100000 < pi" "pi < 31416 / 10000"
    using arctan_fifth_bounds arctan_239_bounds by linarith+
qed


lemma poisson_sqrt_max: "poisson raw = sqrt (max raw 0)"
  by (simp add: poisson_def max_def)

lemma rgb_rejects_disabled_sky:
  "outer_annulus ap \<le> inner_annulus ap \<Longrightarrow>
   perform_rgb_photometry lib ap rgb gray pos = Inl ValueError"
  by (simp add: perform_rgb_photometry_def new_CircularAperture_def new_CircularAnnulus_def)

lemma gray_disabled_sky:
  "0 < inner_radius ap \<Longrightarrow> outer_annulus ap \<le> inner_annulus ap \<Longrightarrow>
   \<exists>c. channel_named ''gray'' (perform_aperture_photometry lib ap img pos) = Some c \<and>
       star_flux_corrected c = star_flux_raw c \<and> sky_per_pixel c = 0 \<and> sky_std c = 0"
  by (simp add: perform_aperture_photometry_def new_CircularAperture_def channel_named_def Let_def)

text \<open>
  C3. With \<open>inner_annulus \<ge> outer_annulus\<close> the grayscale path returns the raw flux as the
  corrected flux with zero sky values (lemma \<open>gray_disabled_sky\<close>), but the RGB path
  builds the sky annulus all the same: the constructor rejects the radii, the
  measurement raises, and \<^verbatim>\<open>process_single_image\<close> logs the error and yields no result.
  Shown at the radii 9, 12, 12, for every library, frame and position.
\<close>

theorem rgb_no_sky_raises:
  "outer_annulus no_sky_params \<le> inner_annulus no_sky_params \<and>
   perform_rgb_photometry lib no_sky_params rgb gray pos = Inl ValueError \<and>
   process_single_image env (s\<lparr>params := no_sky_params\<rparr>) (Some (RGB r g b)) (Some pos) 0
     = (None, log_event (ErrorProcessing 0)
                (log_event (Processing 0) (s\<lparr>params := no_sky_params\<rparr>)))"
  by (simp add: rgb_rejects_disabled_sky no_sky_params_def process_single_image_def
      select_position_def measure_frame_def Let_def log_event_def)

lemma sqrt_1000_bounds: "3161 / 100 < sqrt 1000" "sqrt 1000 < 3163 / 100"
  by (rule real_less_rsqrt, simp add: power2_eq_square) (rule real_less_lsqrt, simp_all add: power2_eq_square)

lemma measure_channel_formulas:
  "sky_background_total (measure_channel lib d (CircularAperture pos R) ann) =
     sky_per_pixel (measure_channel lib d (CircularAperture pos R) ann) * (pi * R\<^sup>2) \<and>
   star_flux_corrected (measure_channel lib d (CircularAperture pos R) ann) =
     star_flux_raw (measure_channel lib d (CircularAperture pos R) ann)
       - sky_background_total (measure_channel lib d (CircularAperture pos R) ann) \<and>
   poisson_noise (measure_channel lib d (CircularAperture pos R) ann) =
     sqrt (max (star_flux_raw (measure_channel lib d (CircularAperture pos R) ann)) 0)"
  by (simp add: measure_channel_def Let_def poisson_sqrt_max)

lemma example_numbers:
  assumes "sky_background_total c = sky_per_pixel c * (pi * 9\<^sup>2)"
    and "star_flux_corrected c = star_flux_raw c - sky_background_total c"
    and "poisson_noise c = sqrt (max (star_flux_raw c) 0)"
    and "star_flux_raw c = 1000" and "sky_per_pixel c = 5"
  shows "\<bar>sky_background_total c - 127235 / 100\<bar> < 1 / 100"
    and "\<bar>star_flux_corrected c + 27235 / 100\<bar> < 1 / 100"
    and "\<bar>poisson_noise c - 3162 / 100\<bar> < 1 / 100"
proof -
  have bg: "sky_background_total c = 405 * pi" using assms by simp
  have co: "star_flux_corrected c = 1000 - 405 * pi" using bg assms by simp
  have no: "poisson_noise c = sqrt 1000" using assms by simp
  show "\<bar>sky_background_total c - 127235 / 100\<bar> < 1 / 100"
    unfolding bg using pi_bounds by linarith
  show "\<bar>star_flux_corrected c + 27235 / 100\<bar> < 1 / 100"
    unfolding co using pi_bounds by linarith
  show "\<bar>poisson_noise c - 3162 / 100\<bar> < 1 / 100"
    unfolding no using sqrt_1000_bounds by linarith
qed

lemma sum_aper_area_on_image:
  "on_image d a \<Longrightarrow> sum_aper_area lib d a = area_of_aperture a"
  by (simp add: sum_aper_area_def)

lemma sample_aperture_on_image: "on_image flat_plane (CircularAperture (50, 50) 9)"
  by (simp add: flat_plane_def)

text \<open>
  C8 (as amended). With positive radii and \<open>inner_annulus < outer_annulus\<close> both paths
  return a measurement in which, for every channel, the corrected flux is the raw flux
  minus the background total and the Poisson noise is \<open>sqrt (max raw_flux 0)\<close>. In the
  RGB path the background total is the sky median times the analytic disk area
  \<open>pi * inner_radius\<^sup>2\<close>. In the grayscale path it is the sky median times the area
  that \<^verbatim>\<open>ApertureStats\<close> summed over, the part of the aperture on the image: that is
  \<open>pi * inner_radius\<^sup>2\<close> when the aperture lies on the image. For a raw flux of 1000,
  a sky median of 5 and radius 9 the values are within 0.01 of 1272.35, -272.35 and 31.62
  in the RGB path, and in the grayscale path when the aperture lies on the image.
\<close>

theorem sky_subtraction_formulas:
  assumes "0 < inner_radius ap" and "0 < inner_annulus ap"
    and "inner_annulus ap < outer_annulus ap"
  shows
   "(\<exists>m. perform_rgb_photometry lib ap (r, g, b) gray pos = Inr m \<and>
         map fst (channels m) = [''r'', ''g'', ''b'', ''gray''] \<and>
         list_all (channel_ok (pi * (inner_radius ap)\<^sup>2)) (map snd (channels m)) \<and>
         (inner_radius ap = 9 \<longrightarrow>
            list_all (\<lambda>c. star_flux_raw c = 1000 \<and> sky_per_pixel c = 5 \<longrightarrow>
                \<bar>sky_background_total c - 127235 / 100\<bar> < 1 / 100 \<and>
                \<bar>star_flux_corrected c + 27235 / 100\<bar> < 1 / 100 \<and>
                \<bar>poisson_noise c - 3162 / 100\<bar> < 1 / 100) (map snd (channels m)))) \<and>
    (\<exists>m. perform_aperture_photometry lib ap img pos = Inr m \<and>
         map fst (channels m) = [''gray''] \<and>
         list_all (channel_ok (sum_aper_area lib img (CircularAperture pos (inner_radius ap))))
           (map snd (channels m)) \<and>
         (on_image img (CircularAperture pos (inner_radius ap)) \<longrightarrow>
            list_all (channel_ok (pi * (inner_radius ap)\<^sup>2)) (map snd (channels m)) \<and>
            (inner_radius ap = 9 \<longrightarrow>
               list_all (\<lambda>c. star_flux_raw c = 1000 \<and> sky_per_pixel c = 5 \<longrightarrow>
                   \<bar>sky_background_total c - 127235 / 100\<bar> < 1 / 100 \<and>
                   \<bar>star_flux_corrected c + 27235 / 100\<bar> < 1 / 100 \<and>
                   \<bar>poisson_noise c - 3162 / 100\<bar> < 1 / 100) (map snd (channels m)))))"
proof -
  let ?A = "CircularAperture pos (inner_radius ap)"
  let ?N = "CircularAnnulus pos (inner_annulus ap) (outer_annulus ap)"
  have pos_outer: "0 < outer_annulus ap" using assms by linarith
  have rgb: "perform_rgb_photometry lib ap (r, g, b) gray pos =
    Inr \<lparr>x_position = fst pos, y_position = snd pos,
         aperture_area = area_of_aperture ?A,
         sky_annulus_area = area_of_annulus ?N,
         channels =
           [(''r'', measure_channel lib r ?A ?N),
            (''g'', measure_channel lib g ?A ?N),
            (''b'', measure_channel lib b ?A ?N),
            (''gray'', measure_channel lib gray ?A ?N)]\<rparr>"
    using assms pos_outer
    by (simp add: perform_rgb_photometry_def new_CircularAperture_def new_CircularAnnulus_def)
  have ok: "channel_ok (pi * (inner_radius ap)\<^sup>2) (measure_channel lib d ?A ann)" for d ann
    using measure_channel_formulas [of lib d pos "inner_radius ap" ann] by (simp add: channel_ok_def)
  have num: "star_flux_raw c = 1000 \<and> sky_per_pixel c = 5 \<longrightarrow>
                \<bar>sky_background_total c - 127235 / 100\<bar> < 1 / 100 \<and>
                \<bar>star_flux_corrected c + 27235 / 100\<bar> < 1 / 100 \<and>
                \<bar>poisson_noise c - 3162 / 100\<bar> < 1 / 100"
    if "channel_ok (pi * 9\<^sup>2) c" for c
    using that example_numbers [of c] by (simp add: channel_ok_def)
  define gc where "gc =
    \<lparr>star_flux_raw = stats_sum lib img ?A,
     sky_background_total = bkg_median lib img ?N * sum_aper_area lib img ?A,
     sky_per_pixel = bkg_median lib img ?N, sky_std = bkg_std lib img ?N,
     star_flux_corrected = stats_sum lib img ?A - bkg_median lib img ?N * sum_aper_area lib img ?A,
     poisson_noise = poisson (stats_sum lib img ?A)\<rparr>"
  have gray: "\<exists>m. perform_aperture_photometry lib ap img pos = Inr m \<and> channels m = [(''gray'', gc)]"
    using assms pos_outer
    by (simp add: perform_aperture_photometry_def new_CircularAperture_def new_CircularAnnulus_def
        Let_def gc_def)
  have gok: "channel_ok (sum_aper_area lib img ?A) gc"
    by (simp add: channel_ok_def gc_def poisson_sqrt_max)
  have gdisk: "channel_ok (pi * (inner_radius ap)\<^sup>2) gc" if "on_image img ?A"
    using gok sum_aper_area_on_image [OF that, of lib] by simp
  have gnum: "star_flux_raw gc = 1000 \<and> sky_per_pixel gc = 5 \<longrightarrow>
                \<bar>sky_background_total gc - 127235 / 100\<bar> < 1 / 100 \<and>
                \<bar>star_flux_corrected gc + 27235 / 100\<bar> < 1 / 100 \<and>
                \<bar>poisson_noise gc - 3162 / 100\<bar> < 1 / 100"
    if "on_image img ?A" "inner_radius ap = 9"
    using gdisk [OF that(1)] num [of gc] that(2) by simp
  have first: "\<exists>m. perform_rgb_photometry lib ap (r, g, b) gray pos = Inr m \<and>
         map fst (channels m) = [''r'', ''g'', ''b'', ''gray''] \<and>
         list_all (channel_ok (pi * (inner_radius ap)\<^sup>2)) (map snd (channels m)) \<and>
         (inner_radius ap = 9 \<longrightarrow>
            list_all (\<lambda>c. star_flux_raw c = 1000 \<and> sky_per_pixel c = 5 \<longrightarrow>
                \<bar>sky_background_total c - 127235 / 100\<bar> < 1 / 100 \<and>
                \<bar>star_flux_corrected c + 27235 / 100\<bar> < 1 / 100 \<and>
                \<bar>poisson_noise c - 3162 / 100\<bar> < 1 / 100) (map snd (channels m)))"
    using ok num by (auto simp: rgb)
  from gray obtain m where m: "perform_aperture_photometry lib ap img pos = Inr m"
    and cm: "channels m = [(''gray'', gc)]" by blast
  have second: "\<exists>m. perform_aperture_photometry lib ap img pos = Inr m \<and>
         map fst (channels m) = [''gray''] \<and>
         list_all (channel_ok (sum_aper_area lib img ?A)) (map snd (channels m)) \<and>
         (on_image img ?A \<longrightarrow>
            list_all (channel_ok (pi * (inner_radius ap)\<^sup>2)) (map snd (channels m)) \<and>
            (inner_radius ap = 9 \<longrightarrow>
               list_all (\<lambda>c. star_flux_raw c = 1000 \<and> sky_per_pixel c = 5 \<longrightarrow>
                   \<bar>sky_background_total c - 127235 / 100\<bar> < 1 / 100 \<and>
                   \<bar>star_flux_corrected c + 27235 / 100\<bar> < 1 / 100 \<and>
                   \<bar>poisson_noise c - 3162 / 100\<bar> < 1 / 100) (map snd (channels m))))"
    using m cm gok gdisk gnum by simp
  from first second show ?thesis by (rule conjI)
qed

theorem sky_subtraction_formulas_witness:
  "0 < inner_radius default_params \<and> 0 < inner_annulus default_params \<and>
   inner_annulus default_params < outer_annulus default_params \<and>
   inner_radius default_params = 9 \<and>
   (\<exists>c. channel_named ''r''
          (perform_rgb_photometry sample_lib default_params
             (flat_plane, flat_plane, flat_plane) flat_plane (50, 50)) = Some c \<and>
        star_flux_raw c = 1000 \<and> sky_per_pixel c = 5 \<and>
        \<bar>sky_background_total c - 127235 / 100\<bar> < 1 / 100 \<and>
        \<bar>star_flux_corrected c + 27235 / 100\<bar> < 1 / 100 \<and>
        \<bar>poisson_noise c - 3162 / 100\<bar> < 1 / 100) \<and>
   on_image flat_plane (CircularAperture (50, 50) (inner_radius default_params)) \<and>
   (\<exists>c. channel_named ''gray''
          (perform_aperture_photometry sample_lib default_params flat_plane (50, 50)) = Some c \<and>
        star_flux_raw c = 1000 \<and> sky_per_pixel c = 5 \<and>
        sky_background_total c = 5 * (pi * 9\<^sup>2) \<and>
        \<bar>sky_background_total c - 127235 / 100\<bar> < 1 / 100 \<and>
        \<bar>star_flux_corrected c + 27235 / 100\<bar> < 1 / 100 \<and>
        \<bar>poisson_noise c - 3162 / 100\<bar> < 1 / 100)"
proof -
  let ?res = "perform_rgb_photometry sample_lib default_params
                (flat_plane, flat_plane, flat_plane) flat_plane (50, 50)"
  let ?gres = "perform_aperture_photometry sample_lib default_params flat_plane (50, 50)"
  let ?c = "measure_channel sample_lib flat_plane (CircularAperture (50, 50) 9)
              (CircularAnnulus (50, 50) 12 17)"
  have hyp: "0 < inner_radius default_params" "0 < inner_annulus default_params"
    "inner_annulus default_params < outer_annulus default_params"
    "inner_radius default_params = 9"
    by (simp_all add: default_params_def)
  have on: "on_image flat_plane (CircularAperture (50, 50) (inner_radius default_params))"
    using sample_aperture_on_image by (simp add: default_params_def)
  have res: "channel_named ''r'' ?res = Some ?c"
    by (simp add: perform_rgb_photometry_def new_CircularAperture_def
        new_CircularAnnulus_def default_params_def channel_named_def)
  have vals: "star_flux_raw ?c = 1000" "sky_per_pixel ?c = 5"
    by (simp_all add: measure_channel_def sample_lib_def Let_def)
  note inst = sky_subtraction_formulas [OF hyp(1-3), of sample_lib flat_plane flat_plane flat_plane
      flat_plane "(50, 50)" flat_plane]
  from inst obtain m where m: "?res = Inr m"
    and num: "list_all (\<lambda>c. star_flux_raw c = 1000 \<and> sky_per_pixel c = 5 \<longrightarrow>
                \<bar>sky_background_total c - 127235 / 100\<bar> < 1 / 100 \<and>
                \<bar>star_flux_corrected c + 27235 / 100\<bar> < 1 / 100 \<and>
                \<bar>poisson_noise c - 3162 / 100\<bar> < 1 / 100) (map snd (channels m))"
    using hyp(4) by blast
  from res m have "map_of (channels m) ''r'' = Some ?c"
    by (simp add: channel_named_def)
  then have "(''r'', ?c) \<in> set (channels m)"
    by (rule map_of_SomeD)
  then have "?c \<in> set (map snd (channels m))"
    by force
  with num have
    "star_flux_raw ?c = 1000 \<and> sky_per_pixel ?c = 5 \<longrightarrow>
     \<bar>sky_background_total ?c - 127235 / 100\<bar> < 1 / 100 \<and>
     \<bar>star_flux_corrected ?c + 27235 / 100\<bar> < 1 / 100 \<and>
     \<bar>poisson_noise ?c - 3162 / 100\<bar> < 1 / 100"
    unfolding list_all_iff by blast
  with vals have rnum:
    "\<bar>sky_background_total ?c - 127235 / 100\<bar> < 1 / 100 \<and>
     \<bar>star_flux_corrected ?c + 27235 / 100\<bar> < 1 / 100 \<and>
     \<bar>poisson_noise ?c - 3162 / 100\<bar> < 1 / 100"
    by blast
  from inst [THEN conjunct2] obtain gm where gm: "?gres = Inr gm"
    and names: "map fst (channels gm) = [''gray'']"
    and imp: "on_image flat_plane (CircularAperture (50, 50) (inner_radius default_params)) \<longrightarrow>
            list_all (channel_ok (pi * (inner_radius default_params)\<^sup>2)) (map snd (channels gm)) \<and>
            (inner_radius default_params = 9 \<longrightarrow>
               list_all (\<lambda>c. star_flux_raw c = 1000 \<and> sky_per_pixel c = 5 \<longrightarrow>
                   \<bar>sky_background_total c - 127235 / 100\<bar> < 1 / 100 \<and>
                   \<bar>star_flux_corrected c + 27235 / 100\<bar> < 1 / 100 \<and>
                   \<bar>poisson_noise c - 3162 / 100\<bar> < 1 / 100) (map snd (channels gm)))"
    by (elim exE conjE)
  from imp on have both:
    "list_all (channel_ok (pi * (inner_radius default_params)\<^sup>2)) (map snd (channels gm)) \<and>
     (inner_radius default_params = 9 \<longrightarrow>
        list_all (\<lambda>c. star_flux_raw c = 1000 \<and> sky_per_pixel c = 5 \<longrightarrow>
            \<bar>sky_background_total c - 127235 / 100\<bar> < 1 / 100 \<and>
            \<bar>star_flux_corrected c + 27235 / 100\<bar> < 1 / 100 \<and>
            \<bar>poisson_noise c - 3162 / 100\<bar> < 1 / 100) (map snd (channels gm)))"
    by (rule mp)
  from both have gdisk:
    "list_all (channel_ok (pi * (inner_radius default_params)\<^sup>2)) (map snd (channels gm))"
    by (rule conjunct1)
  from both [THEN conjunct2] hyp(4) have gnum:
    "list_all (\<lambda>c. star_flux_raw c = 1000 \<and> sky_per_pixel c = 5 \<longrightarrow>
                \<bar>sky_background_total c - 127235 / 100\<bar> < 1 / 100 \<and>
                \<bar>star_flux_corrected c + 27235 / 100\<bar> < 1 / 100 \<and>
                \<bar>poisson_noise c - 3162 / 100\<bar> < 1 / 100) (map snd (channels gm))"
    by (rule mp)
  from names obtain gc where cgm: "channels gm = [(''gray'', gc)]"
    by (cases "channels gm") auto
  have gres: "channel_named ''gray'' ?gres = Some gc"
    using gm cgm by (simp add: channel_named_def)
  have "?gres = Inr gm" by (rule gm)
  then have gvals: "star_flux_raw gc = 1000" "sky_per_pixel gc = 5"
    using cgm
    by (auto simp: perform_aperture_photometry_def new_CircularAperture_def
        new_CircularAnnulus_def default_params_def sample_lib_def Let_def)
  from gdisk cgm hyp(4) gvals have gbg: "sky_background_total gc = 5 * (pi * 9\<^sup>2)"
    by (simp add: channel_ok_def)
  from gnum cgm gvals have gn:
    "\<bar>sky_background_total gc - 127235 / 100\<bar> < 1 / 100 \<and>
     \<bar>star_flux_corrected gc + 27235 / 100\<bar> < 1 / 100 \<and>
     \<bar>poisson_noise gc - 3162 / 100\<bar> < 1 / 100"
    by simp
  have first: "\<exists>c. channel_named ''r'' ?res = Some c \<and>
        star_flux_raw c = 1000 \<and> sky_per_pixel c = 5 \<and>
        \<bar>sky_background_total c - 127235 / 100\<bar> < 1 / 100 \<and>
        \<bar>star_flux_corrected c + 27235 / 100\<bar> < 1 / 100 \<and>
        \<bar>poisson_noise c - 3162 / 100\<bar> < 1 / 100"
    using res vals rnum by blast
  have second: "\<exists>c. channel_named ''gray'' ?gres = Some c \<and>
        star_flux_raw c = 1000 \<and> sky_per_pixel c = 5 \<and>
        sky_background_total c = 5 * (pi * 9\<^sup>2) \<and>
        \<bar>sky_background_total c - 127235 / 100\<bar> < 1 / 100 \<and>
        \<bar>star_flux_corrected c + 27235 / 100\<bar> < 1 / 100 \<and>
        \<bar>poisson_noise c - 3162 / 100\<bar> < 1 / 100"
    using gres gvals gbg gn by blast
  from hyp on first second show ?thesis
    by blast
qed

text \<open>
  A star whose aperture of radius 9 is centred on the left edge of the 100 by 100 image,
  at \<open>(-1/2, 50)\<close>: the aperture does not lie on the image, the sum is taken over the
  half of the disk that does, and the grayscale background total is \<open>5 * (pi * 81 / 2)\<close>
  and not \<open>5 * (pi * 81)\<close>.
\<close>

theorem gray_background_counterexample:
  "inner_annulus default_params < outer_annulus default_params \<and>
   \<not> on_image flat_plane (CircularAperture (- (1 / 2), 50) (inner_radius default_params)) \<and>
   map_option sky_per_pixel
     (channel_named ''gray''
        (perform_aperture_photometry edge_lib default_params flat_plane (- (1 / 2), 50)))
     = Some 5 \<and>
   map_option sky_background_total
     (channel_named ''gray''
        (perform_aperture_photometry edge_lib default_params flat_plane (- (1 / 2), 50)))
     = Some (5 * (pi * 9\<^sup>2 / 2)) \<and>
   (5 * (pi * 9\<^sup>2 / 2) :: real) \<noteq> 5 * (pi * (inner_radius default_params)\<^sup>2)"
proof -
  have "(5 * (pi * 9\<^sup>2 / 2) :: real) < 5 * (pi * 9\<^sup>2)"
    using pi_gt_zero by simp
  then show ?thesis
    by (simp add: perform_aperture_photometry_def new_CircularAperture_def
        new_CircularAnnulus_def default_params_def edge_lib_def sample_lib_def
        sum_aper_area_def flat_plane_def channel_named_def Let_def)
qed

subsection \<open>Overwriting a position while paused\<close>






text \<open>
  A click in sequential mode stores the clicked position at the index of the current
  frame and, when the measurement succeeds, appends a result computed from it.
\<close>

lemma sequential_click_computed_from:
  assumes "sequential_mode s" and "length (frame_positions s) = current_frame_index s"
  shows "frame_positions (on_sequential_tracking_click env x y s)
           = frame_positions s @ [Some (x, y)] \<and>
         (photometry_results (on_sequential_tracking_click env x y s) = photometry_results s \<or>
          (\<exists>r. photometry_results (on_sequential_tracking_click env x y s)
                  = photometry_results s @ [r] \<and>
               image_index r = current_frame_index s \<and>
               computed_from (frame_positions (on_sequential_tracking_click env x y s)) r))"
  using assms(1) assms(2) [symmetric]
  by (auto simp: on_sequential_tracking_click_def process_current_frame_def Let_def log_event_def
      computed_from_def split: option.splits sum.splits if_splits)




subsection \<open>Batch processing\<close>

lemma processing_indices_append:
  "processing_indices (xs @ ys) = processing_indices xs @ processing_indices ys"
  by (induction xs rule: processing_indices.induct) auto

lemma psi_batch_state:
  "batch_processing_mode s \<Longrightarrow>
   snd (process_single_image env s f p i) =
     (if outcome env s f p i = None
      then log_event (ErrorProcessing i) (log_event (Processing i) s)
      else log_event (Processing i) s)"
  by (auto simp: process_single_image_def outcome_def select_position_def log_event_def Let_def
      split: option.splits list.splits sum.splits)

lemma outcome_cong:
  "batch_processing_mode s \<Longrightarrow> batch_processing_mode s' \<Longrightarrow>
   preselected_positions s' = preselected_positions s \<Longrightarrow> params s' = params s \<Longrightarrow>
   outcome env s' f p i = outcome env s f p i"
  by (auto simp: process_single_image_def outcome_def select_position_def log_event_def Let_def
      split: option.splits list.splits sum.splits)

lemma outcome_Some:
  "batch_processing_mode s \<Longrightarrow> outcome env s f p i = Some r \<Longrightarrow>
   image_index r = i \<and> f \<noteq> None \<and> p = Some (tracked_position r)"
  by (auto simp: process_single_image_def outcome_def select_position_def log_event_def Let_def
      split: option.splits list.splits sum.splits if_splits)

lemma outcome_undecodable: "outcome env s None p i = None"
  by (simp add: process_single_image_def outcome_def Let_def)


lemma batch_loop_step:
  assumes "batch_processing_mode s"
  shows "batch_loop env never_stop i ((f, p) # rest) s =
         batch_loop env never_stop (Suc i) rest (step_state env s f p i)"
proof -
  have "process_single_image env s f p i =
          (outcome env s f p i, snd (process_single_image env s f p i))"
    by (simp add: outcome_def)
  then show ?thesis
    using psi_batch_state [OF assms, of env f p i]
    by (cases "outcome env s f p i") (simp_all add: never_stop_def step_state_def log_event_def)
qed

lemma step_state_fields:
  "batch_processing_mode (step_state env s f p i) = batch_processing_mode s"
  "preselected_positions (step_state env s f p i) = preselected_positions s"
  "params (step_state env s f p i) = params s"
  "fits_files (step_state env s f p i) = fits_files s"
  by (simp_all add: step_state_def log_event_def split: option.splits)

lemma step_state_results:
  "photometry_results (step_state env s f p i) =
     photometry_results s @ (case outcome env s f p i of Some r \<Rightarrow> [r] | None \<Rightarrow> [])"
  by (simp add: step_state_def log_event_def split: option.splits)

lemma step_state_log:
  "status_log (step_state env s f p i) =
     status_log s @ (case outcome env s f p i of
                       Some r \<Rightarrow> [Processing i]
                     | None \<Rightarrow> [Processing i, ErrorProcessing i])"
  by (simp add: step_state_def log_event_def split: option.splits)

lemma batch_loop_char:
  assumes "batch_processing_mode s" and "batch_processing_mode s0"
    and "preselected_positions s = preselected_positions s0" and "params s = params s0"
  shows "photometry_results (batch_loop env never_stop i items s) =
           photometry_results s @
             List.map_filter (\<lambda>(j, f, p). outcome env s0 f p j) (zip [i..<i + length items] items) \<and>
         processing_indices (status_log (batch_loop env never_stop i items s)) =
           processing_indices (status_log s) @ [i..<i + length items] \<and>
         set (status_log s) \<subseteq> set (status_log (batch_loop env never_stop i items s)) \<and>
         (\<forall>j<length items.
            outcome env s0 (fst (items ! j)) (snd (items ! j)) (i + j) = None \<longrightarrow>
            ErrorProcessing (i + j) \<in> set (status_log (batch_loop env never_stop i items s)))"
  using assms
proof (induction items arbitrary: i s)
  case Nil
  then show ?case by (simp add: List.map_filter_simps)
next
  case (Cons a items)
  obtain f p where a: "a = (f, p)" by (cases a)
  let ?s1 = "step_state env s f p i"
  let ?final = "batch_loop env never_stop (Suc i) items ?s1"
  have o: "outcome env s f p i = outcome env s0 f p i"
    using outcome_cong [of s0 s env f p i] Cons.prems by simp
  have step: "batch_loop env never_stop i (a # items) s = ?final"
    unfolding a using batch_loop_step [OF Cons.prems(1)] .
  have ih: "photometry_results ?final =
           photometry_results ?s1 @
             List.map_filter (\<lambda>(j, f, p). outcome env s0 f p j)
               (zip [Suc i..<Suc i + length items] items) \<and>
         processing_indices (status_log ?final) =
           processing_indices (status_log ?s1) @ [Suc i..<Suc i + length items] \<and>
         set (status_log ?s1) \<subseteq> set (status_log ?final) \<and>
         (\<forall>j<length items.
            outcome env s0 (fst (items ! j)) (snd (items ! j)) (Suc i + j) = None \<longrightarrow>
            ErrorProcessing (Suc i + j) \<in> set (status_log ?final))"
    using Cons.IH [of ?s1 "Suc i"] Cons.prems by (simp add: step_state_fields)
  have u: "[i..<i + length (a # items)] = i # [Suc i..<Suc i + length items]"
  proof -
    have "[i..<Suc (i + length items)] = i # [Suc i..<Suc (i + length items)]"
      by (rule upt_conv_Cons) simp
    then show ?thesis by (simp del: upt_Suc)
  qed
  have z: "zip [i..<i + length (a # items)] (a # items) =
             (i, f, p) # zip [Suc i..<Suc i + length items] items"
    unfolding u by (simp add: a)
  have r: "photometry_results (batch_loop env never_stop i (a # items) s) =
           photometry_results s @
             List.map_filter (\<lambda>(j, f, p). outcome env s0 f p j)
               (zip [i..<i + length (a # items)] (a # items))"
    unfolding step z using ih o
    by (simp add: step_state_results List.map_filter_simps split: option.splits)
  have l: "processing_indices (status_log (batch_loop env never_stop i (a # items) s)) =
           processing_indices (status_log s) @ [i..<i + length (a # items)]"
    unfolding step u using ih
    by (simp add: step_state_log processing_indices_append split: option.splits)
  have m: "set (status_log s) \<subseteq> set (status_log (batch_loop env never_stop i (a # items) s))"
    unfolding step using ih by (auto simp: step_state_log)
  have e: "ErrorProcessing (i + j) \<in> set (status_log (batch_loop env never_stop i (a # items) s))"
    if j: "j < length (a # items)"
      and n: "outcome env s0 (fst ((a # items) ! j)) (snd ((a # items) ! j)) (i + j) = None"
    for j
  proof (cases j)
    case 0
    with n o have "outcome env s f p i = None" by (simp add: a)
    then have "ErrorProcessing i \<in> set (status_log ?s1)" by (simp add: step_state_log)
    with ih show ?thesis unfolding step using 0 by auto
  next
    case (Suc k)
    with j n ih show ?thesis unfolding step by auto
  qed
  from r l m e show ?case by blast
qed



lemma outcome_no_position: "batch_processing_mode s \<Longrightarrow> outcome env s f None i = None"
  by (auto simp: process_single_image_def outcome_def select_position_def log_event_def Let_def
      split: option.splits)

lemma map_filter_set: "r \<in> set (List.map_filter f xs) \<longleftrightarrow> (\<exists>x\<in>set xs. f x = Some r)"
  by (induction xs) (auto simp: List.map_filter_simps split: option.splits)

lemma batch_items:
  "length (zip (take (length (preselected_positions s)) (fits_files s)) (preselected_positions s))
     = batch_frames s"
  "j < batch_frames s \<Longrightarrow>
   zip (take (length (preselected_positions s)) (fits_files s)) (preselected_positions s) ! j
     = (fits_files s ! j, preselected_positions s ! j)"
proof -
  show "length (zip (take (length (preselected_positions s)) (fits_files s))
          (preselected_positions s)) = batch_frames s"
    by (simp add: batch_frames_def min_def)
  assume "j < batch_frames s"
  then have "j < length (take (length (preselected_positions s)) (fits_files s))"
    and "j < length (preselected_positions s)"
    by (simp_all add: batch_frames_def)
  then show "zip (take (length (preselected_positions s)) (fits_files s))
               (preselected_positions s) ! j
             = (fits_files s ! j, preselected_positions s ! j)"
    by simp
qed

lemma start_fields:
  "batch_processing_mode (start_automatic_batch_processing s)"
  "photometry_results (start_automatic_batch_processing s) = []"
  "preselected_positions (start_automatic_batch_processing s) = preselected_positions s"
  "fits_files (start_automatic_batch_processing s) = fits_files s"
  "status_log (start_automatic_batch_processing s) = status_log s"
  by (simp_all add: start_automatic_batch_processing_def)

lemma batch_run_char:
  shows "r \<in> set (photometry_results (batch_run env s)) \<longleftrightarrow>
      (\<exists>j<batch_frames s.
         outcome env (start_automatic_batch_processing s) (fits_files s ! j)
           (preselected_positions s ! j) j = Some r)"
    and "processing_indices (status_log (batch_run env s)) =
           processing_indices (status_log s) @ [0..<batch_frames s]"
    and "j < batch_frames s \<Longrightarrow>
         outcome env (start_automatic_batch_processing s) (fits_files s ! j)
           (preselected_positions s ! j) j = None \<Longrightarrow>
         ErrorProcessing j \<in> set (status_log (batch_run env s))"
proof -
  let ?s = "start_automatic_batch_processing s"
  let ?items = "zip (take (length (preselected_positions s)) (fits_files s))
                  (preselected_positions s)"
  let ?final = "batch_loop env never_stop 0 ?items ?s"
  let ?o = "\<lambda>(j, f, p). outcome env ?s f p j"
  have len: "length ?items = batch_frames s" by (rule batch_items(1))
  have char: "photometry_results ?final =
           photometry_results ?s @ List.map_filter ?o (zip [0..<0 + length ?items] ?items) \<and>
         processing_indices (status_log ?final) =
           processing_indices (status_log ?s) @ [0..<0 + length ?items] \<and>
         set (status_log ?s) \<subseteq> set (status_log ?final) \<and>
         (\<forall>j<length ?items.
            outcome env ?s (fst (?items ! j)) (snd (?items ! j)) (0 + j) = None \<longrightarrow>
            ErrorProcessing (0 + j) \<in> set (status_log ?final))"
    by (rule batch_loop_char) (simp_all add: start_fields)
  from char have c1: "photometry_results ?final =
           photometry_results ?s @ List.map_filter ?o (zip [0..<0 + length ?items] ?items)"
    by (rule conjunct1)
  from char have c2: "processing_indices (status_log ?final) =
           processing_indices (status_log ?s) @ [0..<0 + length ?items]"
    by (rule conjunct1 [OF conjunct2])
  from char have c4: "\<forall>j<length ?items.
            outcome env ?s (fst (?items ! j)) (snd (?items ! j)) (0 + j) = None \<longrightarrow>
            ErrorProcessing (0 + j) \<in> set (status_log ?final)"
    by (rule conjunct2 [OF conjunct2 [OF conjunct2]])
  have run: "photometry_results (batch_run env s) = photometry_results ?final"
    "status_log (batch_run env s) = status_log ?final"
    by (simp_all add: batch_run_def process_batch_photometry_def start_fields)
  have fwd: "\<exists>j<batch_frames s. x = (j, fits_files s ! j, preselected_positions s ! j)"
    if "x \<in> set (zip [0..<batch_frames s] ?items)" for x
  proof -
    from that obtain k where k: "k < batch_frames s"
      and x: "x = ([0..<batch_frames s] ! k, ?items ! k)"
      using len by (auto simp: set_zip)
    then show ?thesis using batch_items(2) [OF k] by auto
  qed
  have bwd: "(j, fits_files s ! j, preselected_positions s ! j)
               \<in> set (zip [0..<batch_frames s] ?items)"
    if j: "j < batch_frames s" for j
  proof -
    have "(j, fits_files s ! j, preselected_positions s ! j)
            = ([0..<batch_frames s] ! j, ?items ! j)"
      using j batch_items(2) [OF j] by simp
    moreover have "j < min (length [0..<batch_frames s]) (length ?items)"
      using j len by simp
    ultimately show ?thesis unfolding set_zip by blast
  qed
  have mf: "r \<in> set (photometry_results (batch_run env s)) \<longleftrightarrow>
          (\<exists>x\<in>set (zip [0..<batch_frames s] ?items). ?o x = Some r)"
    using c1 len by (simp add: run start_fields map_filter_set)
  show "r \<in> set (photometry_results (batch_run env s)) \<longleftrightarrow>
      (\<exists>j<batch_frames s.
         outcome env ?s (fits_files s ! j) (preselected_positions s ! j) j = Some r)"
  proof
    assume "r \<in> set (photometry_results (batch_run env s))"
    with mf obtain x where x: "x \<in> set (zip [0..<batch_frames s] ?items)"
      and ox: "?o x = Some r" by blast
    from fwd [OF x] obtain j where j: "j < batch_frames s"
      and xj: "x = (j, fits_files s ! j, preselected_positions s ! j)" by blast
    from ox xj have "outcome env ?s (fits_files s ! j) (preselected_positions s ! j) j = Some r"
      by simp
    with j show "\<exists>j<batch_frames s.
         outcome env ?s (fits_files s ! j) (preselected_positions s ! j) j = Some r"
      by blast
  next
    assume "\<exists>j<batch_frames s.
         outcome env ?s (fits_files s ! j) (preselected_positions s ! j) j = Some r"
    then obtain j where j: "j < batch_frames s"
      and o: "outcome env ?s (fits_files s ! j) (preselected_positions s ! j) j = Some r"
      by blast
    from o have "?o (j, fits_files s ! j, preselected_positions s ! j) = Some r" by simp
    with bwd [OF j] have "\<exists>x\<in>set (zip [0..<batch_frames s] ?items). ?o x = Some r"
      by (rule rev_bexI)
    with mf show "r \<in> set (photometry_results (batch_run env s))" by simp
  qed
  show "processing_indices (status_log (batch_run env s)) =
          processing_indices (status_log s) @ [0..<batch_frames s]"
    using c2 len by (simp add: run start_fields)
  show "ErrorProcessing j \<in> set (status_log (batch_run env s))"
    if j: "j < batch_frames s"
      and n: "outcome env ?s (fits_files s ! j) (preselected_positions s ! j) j = None"
  proof -
    from j len have "j < length ?items" by simp
    with c4 have "outcome env ?s (fst (?items ! j)) (snd (?items ! j)) (0 + j) = None \<longrightarrow>
                  ErrorProcessing (0 + j) \<in> set (status_log ?final)"
      by blast
    then show ?thesis using n batch_items(2) [OF j] by (simp add: run)
  qed
qed

lemma batch_loop_step_any:
  assumes "batch_processing_mode s" and "\<not> stop i"
  shows "batch_loop env stop i ((f, p) # rest) s =
         batch_loop env stop (Suc i) rest (step_state env s f p i)"
proof -
  have "process_single_image env s f p i =
          (outcome env s f p i, snd (process_single_image env s f p i))"
    by (simp add: outcome_def)
  then show ?thesis
    using psi_batch_state [OF assms(1), of env f p i] assms(2)
    by (cases "outcome env s f p i") (simp_all add: step_state_def log_event_def)
qed

lemma batch_loop_results_subset:
  assumes "batch_processing_mode s" and "batch_processing_mode s0"
    and "preselected_positions s = preselected_positions s0" and "params s = params s0"
  shows "set (photometry_results (batch_loop env stop i items s)) \<subseteq>
           set (photometry_results s) \<union>
           {r. \<exists>j<length items.
                 outcome env s0 (fst (items ! j)) (snd (items ! j)) (i + j) = Some r}"
  using assms
proof (induction items arbitrary: i s)
  case Nil
  then show ?case by simp
next
  case (Cons a items)
  obtain f p where a: "a = (f, p)" by (cases a)
  show ?case
  proof (cases "stop i")
    case True
    then show ?thesis by (simp add: a log_event_def)
  next
    case False
    let ?s1 = "step_state env s f p i"
    have o: "outcome env s f p i = outcome env s0 f p i"
      using outcome_cong [of s0 s env f p i] Cons.prems by simp
    have step: "batch_loop env stop i (a # items) s = batch_loop env stop (Suc i) items ?s1"
      unfolding a
      using batch_loop_step_any [of s stop i env f p items] Cons.prems(1) False by blast
    have ih: "set (photometry_results (batch_loop env stop (Suc i) items ?s1)) \<subseteq>
           set (photometry_results ?s1) \<union>
           {r. \<exists>j<length items.
                 outcome env s0 (fst (items ! j)) (snd (items ! j)) (Suc i + j) = Some r}"
      using Cons.IH [of ?s1 "Suc i"] Cons.prems by (simp add: step_state_fields)
    show ?thesis
    proof
      fix r assume "r \<in> set (photometry_results (batch_loop env stop i (a # items) s))"
      with step ih consider (old) "r \<in> set (photometry_results ?s1)"
        | (new) j where "j < length items"
            "outcome env s0 (fst (items ! j)) (snd (items ! j)) (Suc i + j) = Some r"
        by auto
      then show "r \<in> set (photometry_results s) \<union>
           {r. \<exists>j<length (a # items).
                 outcome env s0 (fst ((a # items) ! j)) (snd ((a # items) ! j)) (i + j)
                   = Some r}"
      proof cases
        case old
        then have "r \<in> set (photometry_results s) \<or> outcome env s0 f p i = Some r"
          using o by (auto simp: step_state_results split: option.splits)
        then show ?thesis
        proof
          assume "r \<in> set (photometry_results s)"
          then show ?thesis by simp
        next
          assume "outcome env s0 f p i = Some r"
          then have "0 < length (a # items) \<and>
              outcome env s0 (fst ((a # items) ! 0)) (snd ((a # items) ! 0)) (i + 0) = Some r"
            by (simp add: a)
          then show ?thesis by blast
        qed
      next
        case new
        then have "Suc j < length (a # items) \<and>
            outcome env s0 (fst ((a # items) ! Suc j)) (snd ((a # items) ! Suc j)) (i + Suc j)
              = Some r"
          by simp
        then show ?thesis by blast
      qed
    qed
  qed
qed

lemma batch_results_any_stop:
  assumes "r \<in> set (photometry_results
                    (process_batch_photometry env stop (start_automatic_batch_processing s)))"
  shows "image_index r < batch_frames s \<and> preselected_positions s ! image_index r \<noteq> None \<and>
         fits_files s ! image_index r \<noteq> None"
proof -
  let ?s = "start_automatic_batch_processing s"
  let ?items = "zip (take (length (preselected_positions s)) (fits_files s))
                  (preselected_positions s)"
  have "set (photometry_results (batch_loop env stop 0 ?items ?s)) \<subseteq>
           set (photometry_results ?s) \<union>
           {r. \<exists>j<length ?items.
                 outcome env ?s (fst (?items ! j)) (snd (?items ! j)) (0 + j) = Some r}"
    by (rule batch_loop_results_subset) (simp_all add: start_fields)
  moreover have "r \<in> set (photometry_results (batch_loop env stop 0 ?items ?s))"
    using assms by (simp add: process_batch_photometry_def start_fields)
  ultimately obtain j where j: "j < length ?items"
    and o: "outcome env ?s (fst (?items ! j)) (snd (?items ! j)) (0 + j) = Some r"
    by (auto simp: start_fields)
  from j have jb: "j < batch_frames s" by (simp only: batch_items(1))
  from o batch_items(2) [OF jb]
  have "outcome env ?s (fits_files s ! j) (preselected_positions s ! j) j = Some r"
    by simp
  from outcome_Some [OF start_fields(1) this] jb show ?thesis by auto
qed

text \<open>
  C10. An uninterrupted batch run processes exactly the frames
  \<open>0, \<dots>, min (number of files) (number of positions) - 1\<close>, in this order: these are
  the frames for which \<^verbatim>\<open>process_single_image\<close> is entered. In every batch run,
  interrupted or not, each result record belongs to one of these frames and to a stored
  position that is not \<open>None\<close>; so a frame beyond the position list yields no record, and
  a frame whose position is \<open>None\<close> yields no record either: its processing ends in the
  error handler, which logs the error.
\<close>

theorem batch_processes_min_frames:
  "processing_indices (status_log (batch_run env s)) =
     processing_indices (status_log s) @ [0..<batch_frames s] \<and>
   (\<forall>r\<in>set (photometry_results
               (process_batch_photometry env stop (start_automatic_batch_processing s))).
      image_index r < batch_frames s \<and> preselected_positions s ! image_index r \<noteq> None) \<and>
   (\<forall>i<batch_frames s.
      preselected_positions s ! i = None \<longrightarrow>
      ErrorProcessing i \<in> set (status_log (batch_run env s)))"
proof (intro conjI ballI allI impI)
  show "processing_indices (status_log (batch_run env s)) =
          processing_indices (status_log s) @ [0..<batch_frames s]"
    by (rule batch_run_char(2))
next
  fix r
  assume r: "r \<in> set (photometry_results
                      (process_batch_photometry env stop (start_automatic_batch_processing s)))"
  from batch_results_any_stop [OF r] show "image_index r < batch_frames s" by simp
  from batch_results_any_stop [OF r] show "preselected_positions s ! image_index r \<noteq> None"
    by simp
next
  let ?s = "start_automatic_batch_processing s"
  fix i assume i: "i < batch_frames s" and n: "preselected_positions s ! i = None"
  have "outcome env ?s (fits_files s ! i) (preselected_positions s ! i) i = None"
    using n outcome_no_position [OF start_fields(1)] by simp
  then show "ErrorProcessing i \<in> set (status_log (batch_run env s))"
    using batch_run_char(3) [OF i] by blast
qed

text \<open>
  C6 (as amended). In an uninterrupted batch run, a frame that cannot be decoded, the
  first one included, yields no result; the error is logged, not raised. Every frame of
  the run is still processed, and each frame whose own processing succeeds contributes
  its result, whatever happened to the frames before it.
\<close>

theorem batch_skips_undecodable:
  "(\<forall>i<batch_frames s.
      fits_files s ! i = None \<longrightarrow>
      ErrorProcessing i \<in> set (status_log (batch_run env s)) \<and>
      i \<notin> image_index ` set (photometry_results (batch_run env s))) \<and>
   (\<forall>j<batch_frames s. \<forall>r.
      outcome env (start_automatic_batch_processing s) (fits_files s ! j)
        (preselected_positions s ! j) j = Some r \<longrightarrow>
      r \<in> set (photometry_results (batch_run env s))) \<and>
   processing_indices (status_log (batch_run env s)) =
     processing_indices (status_log s) @ [0..<batch_frames s]"
proof (intro conjI allI impI)
  let ?s = "start_automatic_batch_processing s"
  fix i assume i: "i < batch_frames s" and n: "fits_files s ! i = None"
  have "outcome env ?s (fits_files s ! i) (preselected_positions s ! i) i = None"
    using n by (simp add: outcome_undecodable)
  then show "ErrorProcessing i \<in> set (status_log (batch_run env s))"
    using batch_run_char(3) [OF i] by blast
  show "i \<notin> image_index ` set (photometry_results (batch_run env s))"
  proof
    assume "i \<in> image_index ` set (photometry_results (batch_run env s))"
    then obtain r where r: "r \<in> set (photometry_results (batch_run env s))"
      and ir: "image_index r = i" by auto
    from r obtain j where j: "j < batch_frames s"
      and o: "outcome env ?s (fits_files s ! j) (preselected_positions s ! j) j = Some r"
      using batch_run_char(1) [of r env s] by blast
    from outcome_Some [OF start_fields(1) o] ir n show False by auto
  qed
next
  fix j r assume "j < batch_frames s"
    and "outcome env (start_automatic_batch_processing s) (fits_files s ! j)
           (preselected_positions s ! j) j = Some r"
  then show "r \<in> set (photometry_results (batch_run env s))"
    using batch_run_char(1) [of r env s] by blast
next
  show "processing_indices (status_log (batch_run env s)) =
          processing_indices (status_log s) @ [0..<batch_frames s]"
    by (rule batch_run_char(2))
qed


lemma upt_3: "[0..<3] = [0, 1, 2]"
  by (simp add: upt_rec)

lemma gap_run:
  "map image_index (photometry_results (batch_run sample_env gap_session)) = [0, 2]"
  by (simp add: batch_run_def process_batch_photometry_def start_automatic_batch_processing_def
      gap_session_def sample_session_def never_stop_def process_single_image_def
      select_position_def measure_frame_def perform_aperture_photometry_def
      new_CircularAperture_def new_CircularAnnulus_def default_params_def sample_env_def
      log_event_def Let_def)

theorem batch_processes_min_frames_witness:
  "batch_frames gap_session = 3 \<and> length (fits_files gap_session) = 4 \<and>
   preselected_positions gap_session ! 1 = None \<and>
   processing_indices (status_log (batch_run sample_env gap_session)) = [0, 1, 2] \<and>
   map image_index (photometry_results (batch_run sample_env gap_session)) = [0, 2] \<and>
   ErrorProcessing 1 \<in> set (status_log (batch_run sample_env gap_session))"
proof -
  have hyp: "batch_frames gap_session = 3" "length (fits_files gap_session) = 4"
    "preselected_positions gap_session ! 1 = None" "status_log gap_session = []"
    by (simp_all add: batch_frames_def gap_session_def sample_session_def)
  have one: "(1::nat) < 3" by simp
  from batch_processes_min_frames
         [where env = sample_env and s = gap_session and stop = never_stop]
  have "processing_indices (status_log (batch_run sample_env gap_session)) = [0, 1, 2]"
    and "ErrorProcessing 1 \<in> set (status_log (batch_run sample_env gap_session))"
    using hyp one by (simp_all add: upt_3)
  with hyp gap_run show ?thesis by simp
qed

lemma middle_run:
  "map image_index (photometry_results (batch_run sample_env middle_undecodable_session))
     = [0, 2]"
  by (simp add: batch_run_def process_batch_photometry_def start_automatic_batch_processing_def
      middle_undecodable_session_def sample_session_def never_stop_def
      process_single_image_def select_position_def measure_frame_def
      perform_aperture_photometry_def new_CircularAperture_def new_CircularAnnulus_def
      default_params_def sample_env_def log_event_def Let_def)

theorem batch_skips_undecodable_witness:
  "1 < batch_frames middle_undecodable_session \<and>
   fits_files middle_undecodable_session ! 1 = None \<and>
   ErrorProcessing 1 \<in> set (status_log (batch_run sample_env middle_undecodable_session)) \<and>
   processing_indices (status_log (batch_run sample_env middle_undecodable_session))
     = [0, 1, 2] \<and>
   map image_index (photometry_results (batch_run sample_env middle_undecodable_session))
     = [0, 2]"
proof -
  have hyp: "batch_frames middle_undecodable_session = 3"
    "fits_files middle_undecodable_session ! 1 = None"
    "status_log middle_undecodable_session = []"
    by (simp_all add: batch_frames_def middle_undecodable_session_def sample_session_def)
  have one: "(1::nat) < 3" by simp
  from batch_skips_undecodable [of middle_undecodable_session sample_env]
  have "processing_indices (status_log (batch_run sample_env middle_undecodable_session))
          = [0, 1, 2]"
    and "ErrorProcessing 1
           \<in> set (status_log (batch_run sample_env middle_undecodable_session))"
    using hyp one by (simp_all add: upt_3)
  with hyp middle_run show ?thesis by simp
qed

text \<open>
  With an undecodable first file the run is not aborted: the frames 1 and 2 are measured.
\<close>

theorem first_frame_not_fatal_counterexample:
  "fits_files first_undecodable_session ! 0 = None \<and>
   map image_index (photometry_results (batch_run sample_env first_undecodable_session))
     = [1, 2]"
  by (simp add: batch_run_def process_batch_photometry_def start_automatic_batch_processing_def
      first_undecodable_session_def sample_session_def never_stop_def
      process_single_image_def select_position_def measure_frame_def
      perform_aperture_photometry_def new_CircularAperture_def new_CircularAnnulus_def
      default_params_def sample_env_def log_event_def Let_def)

subsection \<open>Movement between frames\<close>

text \<open>
  The sequential path: with a stored position for the frame before the current one, the
  appended record carries the distance to that position.
\<close>

lemma sequential_movement_from_previous:
  assumes "0 < current_frame_index s" and "current_frame_index s < length (fits_files s)"
    and "current_frame_index s \<le> length (frame_positions s)"
    and "1 < length (frame_positions s)"
    and "frame_positions s ! (current_frame_index s - 1) = Some prev_pos"
    and "current_image s = Some fr"
    and "measure_frame env (params s) fr star_pos = Inr phot"
  shows "\<exists>r. photometry_results (process_current_frame env star_pos s)
               = photometry_results s @ [r] \<and>
             image_index r = current_frame_index s \<and>
             movement_pixels r = distance star_pos prev_pos"
  using assms by (simp add: process_current_frame_def Let_def log_event_def)

text \<open>
  C2. In batch mode the movement of frame \<open>i > 0\<close> is the distance to the position of
  frame 0, not to that of frame \<open>i - 1\<close>: for the positions (0, 0), (3, 4), (3, 4) the
  third record has movement 5, although the star did not move between frames 1 and 2.
\<close>

theorem batch_movement_from_first_frame:
  "preselected_positions sample_session = [Some (0, 0), Some (3, 4), Some (3, 4)] \<and>
   map movement_pixels (photometry_results (batch_run sample_env sample_session))
     = [0, 5, 5] \<and>
   distance (3, 4) (3, 4) = 0"
  by (simp add: batch_run_def process_batch_photometry_def start_automatic_batch_processing_def
      sample_session_def never_stop_def process_single_image_def
      select_position_def measure_frame_def perform_aperture_photometry_def
      new_CircularAperture_def new_CircularAnnulus_def default_params_def sample_env_def
      log_event_def Let_def distance_def sqrt_25)

subsection \<open>Centroid tracker\<close>

lemma slice_range_bounds:
  assumes "slice_range a b n = (lo, cnt)" and "k < cnt"
  shows "lo + k < n"
proof -
  define H where "H = (if b < 0 then max (b + int n) 0 else min b (int n))"
  have "H \<le> int n" by (auto simp: H_def)
  then have hn: "nat H \<le> n" by simp
  from assms(1) have "cnt = nat H - lo"
    by (auto simp: slice_range_def Let_def H_def)
  with assms(2) hn show ?thesis by arith
qed

lemma slice2_pixels_bounded:
  assumes "\<forall>y<height p. \<forall>x<width p. pixel p y x \<le> t"
  shows "\<forall>y<height (slice2 p y0 y1 x0 x1). \<forall>x<width (slice2 p y0 y1 x0 x1).
           pixel (slice2 p y0 y1 x0 x1) y x \<le> t"
proof (intro allI impI)
  fix y x
  obtain oy ny where sy: "slice_range y0 y1 (height p) = (oy, ny)" by (cases "slice_range y0 y1 (height p)")
  obtain ox nx where sx: "slice_range x0 x1 (width p) = (ox, nx)" by (cases "slice_range x0 x1 (width p)")
  assume "y < height (slice2 p y0 y1 x0 x1)" and "x < width (slice2 p y0 y1 x0 x1)"
  then have "y < ny" "x < nx" by (simp_all add: slice2_def sy sx)
  then have "oy + y < height p" "ox + x < width p"
    using slice_range_bounds [OF sy] slice_range_bounds [OF sx] by simp_all
  with assms have "pixel p (oy + y) (ox + x) \<le> t" by blast
  then show "pixel (slice2 p y0 y1 x0 x1) y x \<le> t" by (simp add: slice2_def sy sx)
qed

lemma indices_bounds:
  "yx \<in> set (indices p) \<Longrightarrow> fst yx < height p \<and> snd yx < width p"
  by (auto simp: indices_def)

lemma no_signal_sum:
  assumes "\<forall>y<height p. \<forall>x<width p. pixel p y x \<le> t"
  shows "np_sum (clip_above p t) = 0"
proof -
  have hw: "height (clip_above p t) = height p" "width (clip_above p t) = width p"
    by (simp_all add: clip_above_def)
  have eq: "flat (clip_above p t) = map (\<lambda>yx. 0) (indices (clip_above p t))"
    unfolding flat_def
  proof (rule map_cong [OF refl])
    fix yx assume m: "yx \<in> set (indices (clip_above p t))"
    from indices_bounds [OF m] have "fst yx < height p" "snd yx < width p"
      by (simp_all add: hw)
    with assms have "pixel p (fst yx) (snd yx) \<le> t" by blast
    then show "(case yx of (y, x) \<Rightarrow> pixel (clip_above p t) y x) = 0"
      by (simp add: case_prod_unfold clip_above_def max_def)
  qed
  show ?thesis unfolding np_sum_def eq by simp
qed

lemma no_signal_methods:
  assumes "\<forall>y<height c. \<forall>x<width c. pixel c y x \<le> t"
  shows "method_center_of_mass img c x_min y_min t e ar = None"
    and "method_peak img c x_min y_min t e ar = None"
proof -
  show "method_center_of_mass img c x_min y_min t e ar = None"
    using no_signal_sum [OF assms] by (simp add: method_center_of_mass_def)
  show "method_peak img c x_min y_min t e ar = None"
    using no_signal_sum [OF slice2_pixels_bounded [OF assms]]
    by (simp add: method_peak_def Let_def)
qed


lemma track_empty_cutout:
  "size_of (search_cutout img h e r) = 0 \<Longrightarrow>
   track_star_position st img (Some e) r h = (Some e, h)"
  by (simp add: track_star_position_def Let_def)

lemma track_no_expected: "track_star_position st img None r h = (None, h)"
  by (simp add: track_star_position_def)

lemma track_total: "\<exists>p h'. track_star_position st img (Some e) r h = (Some p, h')"
  by (simp add: track_star_position_def Let_def split: prod.splits option.splits)

lemma track_methods_fail:
  assumes a: "method_center_of_mass img (search_cutout img h e r) (search_x_min h e r)
                (search_y_min h e r)
                (fst (calculate_adaptive_threshold st (search_cutout img h e r))) e
                (calculate_adaptive_search_radius r h) = None"
    and b: "method_peak img (search_cutout img h e r) (search_x_min h e r)
              (search_y_min h e r)
              (fst (calculate_adaptive_threshold st (search_cutout img h e r))) e
              (calculate_adaptive_search_radius r h) = None"
    and no_momentum:
      "predict_position_with_momentum h e = e \<or>
       real_of_int (calculate_adaptive_search_radius r h)
         < distance (predict_position_with_momentum h e) e"
  shows "track_star_position st img (Some e) r h =
           (Some e, if size_of (search_cutout img h e r) = 0 then h
                    else update_tracking_history e (1 / 10) h)"
proof (cases "size_of (search_cutout img h e r) = 0")
  case True
  then show ?thesis by (simp add: track_empty_cutout)
next
  case False
  obtain t pk where t: "calculate_adaptive_threshold st (search_cutout img h e r) = (t, pk)"
    by (cases "calculate_adaptive_threshold st (search_cutout img h e r)")
  from a b t have
    "method_center_of_mass img (search_cutout img h e r) (search_x_min h e r)
       (search_y_min h e r) t e (calculate_adaptive_search_radius r h) = None"
    "method_peak img (search_cutout img h e r) (search_x_min h e r)
       (search_y_min h e r) t e (calculate_adaptive_search_radius r h) = None"
    by simp_all
  then show ?thesis
    using False no_momentum by (auto simp: track_star_position_def Let_def t)
qed

text \<open>
  C4 (as amended). The tracker returns a value for every input: a missing expected
  position is handed back as it is by the outer handler, and a given one always yields a
  position. When no pixel of the search cutout exceeds the adaptive threshold, there is
  no signal to centroid and both centroid methods fail. Whenever both methods fail, for
  this or any other reason, and the momentum prediction does not apply (the predicted
  position is the expected one, or lies farther from it than the adaptive radius), the
  expected position is returned unchanged. When the search cutout is not empty, one
  confidence is recorded for the attempt, and it is at most 0.1; when the cutout is
  empty, the guard \<^verbatim>\<open>if cutout.size == 0: return expected_pos\<close> returns before anything
  is recorded.
\<close>

theorem track_lost_returns_expected:
  "track_star_position st img None r h = (None, h) \<and>
   (\<exists>p h'. track_star_position st img (Some e) r h = (Some p, h')) \<and>
   ((\<forall>y<height (search_cutout img h e r). \<forall>x<width (search_cutout img h e r).
        pixel (search_cutout img h e r) y x
          \<le> fst (calculate_adaptive_threshold st (search_cutout img h e r))) \<longrightarrow>
    method_center_of_mass img (search_cutout img h e r) (search_x_min h e r)
      (search_y_min h e r) (fst (calculate_adaptive_threshold st (search_cutout img h e r))) e
      (calculate_adaptive_search_radius r h) = None \<and>
    method_peak img (search_cutout img h e r) (search_x_min h e r)
      (search_y_min h e r) (fst (calculate_adaptive_threshold st (search_cutout img h e r))) e
      (calculate_adaptive_search_radius r h) = None) \<and>
   (method_center_of_mass img (search_cutout img h e r) (search_x_min h e r)
      (search_y_min h e r) (fst (calculate_adaptive_threshold st (search_cutout img h e r))) e
      (calculate_adaptive_search_radius r h) = None \<and>
    method_peak img (search_cutout img h e r) (search_x_min h e r)
      (search_y_min h e r) (fst (calculate_adaptive_threshold st (search_cutout img h e r))) e
      (calculate_adaptive_search_radius r h) = None \<and>
    (predict_position_with_momentum h e = e \<or>
     real_of_int (calculate_adaptive_search_radius r h)
       < distance (predict_position_with_momentum h e) e) \<longrightarrow>
    (\<exists>c. c \<le> 1 / 10 \<and>
         track_star_position st img (Some e) r h =
           (Some e, if size_of (search_cutout img h e r) = 0 then h
                    else update_tracking_history e c h)))"
proof (intro conjI impI)
  show "track_star_position st img None r h = (None, h)"
    by (rule track_no_expected)
  show "\<exists>p h'. track_star_position st img (Some e) r h = (Some p, h')"
    by (rule track_total)
next
  assume ns: "\<forall>y<height (search_cutout img h e r). \<forall>x<width (search_cutout img h e r).
        pixel (search_cutout img h e r) y x
          \<le> fst (calculate_adaptive_threshold st (search_cutout img h e r))"
  show "method_center_of_mass img (search_cutout img h e r) (search_x_min h e r)
      (search_y_min h e r) (fst (calculate_adaptive_threshold st (search_cutout img h e r))) e
      (calculate_adaptive_search_radius r h) = None"
    by (rule no_signal_methods(1) [OF ns])
  show "method_peak img (search_cutout img h e r) (search_x_min h e r)
      (search_y_min h e r) (fst (calculate_adaptive_threshold st (search_cutout img h e r))) e
      (calculate_adaptive_search_radius r h) = None"
    by (rule no_signal_methods(2) [OF ns])
next
  assume "method_center_of_mass img (search_cutout img h e r) (search_x_min h e r)
      (search_y_min h e r) (fst (calculate_adaptive_threshold st (search_cutout img h e r))) e
      (calculate_adaptive_search_radius r h) = None \<and>
    method_peak img (search_cutout img h e r) (search_x_min h e r)
      (search_y_min h e r) (fst (calculate_adaptive_threshold st (search_cutout img h e r))) e
      (calculate_adaptive_search_radius r h) = None \<and>
    (predict_position_with_momentum h e = e \<or>
     real_of_int (calculate_adaptive_search_radius r h)
       < distance (predict_position_with_momentum h e) e)"
  then have "track_star_position st img (Some e) r h =
           (Some e, if size_of (search_cutout img h e r) = 0 then h
                    else update_tracking_history e (1 / 10) h)"
    using track_methods_fail [of img h e r st] by blast
  then show "\<exists>c. c \<le> 1 / 10 \<and>
         track_star_position st img (Some e) r h =
           (Some e, if size_of (search_cutout img h e r) = 0 then h
                    else update_tracking_history e c h)"
    by (intro exI [of _ "1 / 10"]) simp
qed

text \<open>
  C5 (as amended). Every call whose search cutout is not empty makes exactly one push:
  the returned position together with its confidence, one of 0.8, 0.6, 0.3 and 0.1. A
  call whose cutout is empty returns the expected position without a push (lemma
  \<open>track_empty_cutout\<close>), and so does the outer handler (lemma \<open>track_no_expected\<close>).
\<close>

theorem track_pushes_once:
  assumes "size_of (search_cutout img h e r) \<noteq> 0"
  shows "\<exists>p c. c \<in> {8 / 10, 6 / 10, 3 / 10, 1 / 10} \<and>
           track_star_position st img (Some e) r h = (Some p, update_tracking_history p c h)"
proof -
  let ?cut = "search_cutout img h e r"
  obtain t pk where t: "calculate_adaptive_threshold st ?cut = (t, pk)"
    by (cases "calculate_adaptive_threshold st ?cut")
  let ?A = "method_center_of_mass img ?cut (search_x_min h e r) (search_y_min h e r) t e
              (calculate_adaptive_search_radius r h)"
  let ?B = "method_peak img ?cut (search_x_min h e r) (search_y_min h e r) t e
              (calculate_adaptive_search_radius r h)"
  let ?M = "predict_position_with_momentum h e \<noteq> e \<and>
            distance (predict_position_with_momentum h e) e
              \<le> real_of_int (calculate_adaptive_search_radius r h)"
  have mem: "(8 / 10 :: real) \<in> {8 / 10, 6 / 10, 3 / 10, 1 / 10}"
    "(6 / 10 :: real) \<in> {8 / 10, 6 / 10, 3 / 10, 1 / 10}"
    "(3 / 10 :: real) \<in> {8 / 10, 6 / 10, 3 / 10, 1 / 10}"
    "(1 / 10 :: real) \<in> {8 / 10, 6 / 10, 3 / 10, 1 / 10}"
    by simp_all
  consider (com) p where "?A = Some p"
    | (peak) p where "?A = None" "?B = Some p"
    | (momentum) "?A = None" "?B = None" "?M"
    | (lost) "?A = None" "?B = None" "\<not> ?M"
    by (cases ?A; cases ?B) auto
  then show ?thesis
  proof cases
    case com
    then have "track_star_position st img (Some e) r h =
                 (Some p, update_tracking_history p (8 / 10) h)"
      using assms by (simp add: track_star_position_def Let_def t)
    with mem(1) show ?thesis by blast
  next
    case peak
    then have "track_star_position st img (Some e) r h =
                 (Some p, update_tracking_history p (6 / 10) h)"
      using assms by (simp add: track_star_position_def Let_def t)
    with mem(2) show ?thesis by blast
  next
    case momentum
    then have "track_star_position st img (Some e) r h =
                 (Some (predict_position_with_momentum h e),
                  update_tracking_history (predict_position_with_momentum h e) (3 / 10) h)"
      using assms by (simp add: track_star_position_def Let_def t)
    with mem(3) show ?thesis by blast
  next
    case lost
    then have "track_star_position st img (Some e) r h =
                 (Some e, update_tracking_history e (1 / 10) h)"
      using assms by (auto simp: track_star_position_def Let_def t)
    with mem(4) show ?thesis by blast
  qed
qed

lemma sample_cutout:
  "search_cutout flat_plane empty_history (50, 50) 25 =
     \<lparr>height = 50, width = 50, pixel = (\<lambda>y x. 7)\<rparr>"
  by (simp add: search_cutout_def search_center_def search_x_min_def search_y_min_def
      predict_position_with_momentum_def calculate_adaptive_search_radius_def
      empty_history_def py_int_def slice2_def slice_range_def flat_plane_def Let_def)

lemma sample_threshold:
  "fst (calculate_adaptive_threshold sample_stats c) = 7"
  by (simp add: calculate_adaptive_threshold_def sample_stats_def Let_def)

lemma sample_prediction: "predict_position_with_momentum empty_history e = e"
  by (simp add: predict_position_with_momentum_def empty_history_def)

lemma offimage_cutout: "size_of (search_cutout flat_plane empty_history (500, 500) 25) = 0"
  by (simp add: search_cutout_def search_center_def search_x_min_def search_y_min_def
      predict_position_with_momentum_def calculate_adaptive_search_radius_def
      empty_history_def py_int_def slice2_def slice_range_def flat_plane_def Let_def size_of_def)

theorem track_lost_returns_expected_witness:
  "search_cutout flat_plane empty_history (50, 50) 25 =
     \<lparr>height = 50, width = 50, pixel = (\<lambda>y x. 7)\<rparr> \<and>
   fst (calculate_adaptive_threshold sample_stats
          (search_cutout flat_plane empty_history (50, 50) 25)) = 7 \<and>
   predict_position_with_momentum empty_history (50, 50) = (50, 50) \<and>
   fst (track_star_position sample_stats flat_plane (Some (50, 50)) 25 empty_history)
     = Some (50, 50) \<and>
   (\<exists>c. c \<le> 1 / 10 \<and>
        tracking_confidence
          (snd (track_star_position sample_stats flat_plane (Some (50, 50)) 25 empty_history))
          = [c])"
proof -
  let ?c = "search_cutout flat_plane empty_history (50, 50) 25"
  note inst = track_lost_returns_expected
    [of sample_stats flat_plane 25 empty_history "(50, 50)"]
  have ns: "\<forall>y<height ?c. \<forall>x<width ?c.
              pixel ?c y x \<le> fst (calculate_adaptive_threshold sample_stats ?c)"
    by (simp add: sample_threshold sample_cutout)
  have nm: "predict_position_with_momentum empty_history (50, 50) = (50, 50) \<or>
            real_of_int (calculate_adaptive_search_radius 25 empty_history)
              < distance (predict_position_with_momentum empty_history (50, 50)) (50, 50)"
    by (simp add: sample_prediction)
  have sz: "size_of ?c \<noteq> 0" by (simp add: sample_cutout size_of_def)
  from inst ns have fails:
    "method_center_of_mass flat_plane ?c (search_x_min empty_history (50, 50) 25)
       (search_y_min empty_history (50, 50) 25)
       (fst (calculate_adaptive_threshold sample_stats ?c)) (50, 50)
       (calculate_adaptive_search_radius 25 empty_history) = None \<and>
     method_peak flat_plane ?c (search_x_min empty_history (50, 50) 25)
       (search_y_min empty_history (50, 50) 25)
       (fst (calculate_adaptive_threshold sample_stats ?c)) (50, 50)
       (calculate_adaptive_search_radius 25 empty_history) = None"
    by blast
  from inst fails nm
  obtain c where c: "c \<le> 1 / 10"
    and tr: "track_star_position sample_stats flat_plane (Some (50, 50)) 25 empty_history =
           (Some (50, 50), if size_of ?c = 0 then empty_history
                    else update_tracking_history (50, 50) c empty_history)"
    by blast
  from tr sz have tr': "track_star_position sample_stats flat_plane (Some (50, 50)) 25
      empty_history = (Some (50, 50), update_tracking_history (50, 50) c empty_history)"
    by simp
  have tc: "tracking_confidence (update_tracking_history (50, 50) c empty_history) = [c]"
    by (simp add: update_tracking_history_def empty_history_def tracking_history_size_def
        Let_def)
  from c tc have "\<exists>c. c \<le> 1 / 10 \<and>
        tracking_confidence
          (snd (track_star_position sample_stats flat_plane (Some (50, 50)) 25 empty_history))
          = [c]"
    unfolding tr' by auto
  then show ?thesis
    using tr' by (simp add: sample_cutout sample_threshold sample_prediction)
qed

text \<open>
  An expected position to the right of the 100 by 100 plane: the search region
  \<^verbatim>\<open>[25:75, 125:100]\<close> is empty, so there is no signal to centroid and both methods
  fail, and with an empty history the momentum prediction is the expected position. The
  call returns the expected position, and no confidence is recorded for the attempt.
\<close>

theorem track_lost_unrecorded_counterexample:
  "size_of (search_cutout flat_plane empty_history (150, 50) 25) = 0 \<and>
   method_center_of_mass flat_plane (search_cutout flat_plane empty_history (150, 50) 25)
     (search_x_min empty_history (150, 50) 25) (search_y_min empty_history (150, 50) 25)
     (fst (calculate_adaptive_threshold sample_stats
            (search_cutout flat_plane empty_history (150, 50) 25)))
     (150, 50) (calculate_adaptive_search_radius 25 empty_history) = None \<and>
   method_peak flat_plane (search_cutout flat_plane empty_history (150, 50) 25)
     (search_x_min empty_history (150, 50) 25) (search_y_min empty_history (150, 50) 25)
     (fst (calculate_adaptive_threshold sample_stats
            (search_cutout flat_plane empty_history (150, 50) 25)))
     (150, 50) (calculate_adaptive_search_radius 25 empty_history) = None \<and>
   predict_position_with_momentum empty_history (150, 50) = (150, 50) \<and>
   tracking_confidence empty_history = [] \<and>
   fst (track_star_position sample_stats flat_plane (Some (150, 50)) 25 empty_history)
     = Some (150, 50) \<and>
   tracking_confidence
     (snd (track_star_position sample_stats flat_plane (Some (150, 50)) 25 empty_history))
     = []"
proof -
  let ?c = "search_cutout flat_plane empty_history (150, 50) 25"
  have cut: "?c = \<lparr>height = 50, width = 0, pixel = (\<lambda>y x. 7)\<rparr>"
    by (simp add: search_cutout_def search_center_def search_x_min_def search_y_min_def
        predict_position_with_momentum_def calculate_adaptive_search_radius_def
        empty_history_def py_int_def slice2_def slice_range_def flat_plane_def Let_def)
  have sz: "size_of ?c = 0"
    by (simp add: cut size_of_def)
  have ns: "\<forall>y<height ?c. \<forall>x<width ?c.
              pixel ?c y x \<le> fst (calculate_adaptive_threshold sample_stats ?c)"
    by (simp add: cut)
  have tr: "track_star_position sample_stats flat_plane (Some (150, 50)) 25 empty_history
              = (Some (150, 50), empty_history)"
    using sz by (simp add: track_star_position_def Let_def)
  have e: "tracking_confidence empty_history = []"
    by (simp add: empty_history_def)
  show ?thesis
    using sz no_signal_methods [OF ns] e
    by (simp add: tr sample_prediction)
qed

theorem track_pushes_once_witness:
  "size_of (search_cutout flat_plane empty_history (50, 50) 25) \<noteq> 0 \<and>
   (\<exists>p c. track_star_position sample_stats flat_plane (Some (50, 50)) 25 empty_history
            = (Some p, update_tracking_history p c empty_history) \<and>
          position_history (update_tracking_history p c empty_history) = [p] \<and>
          tracking_confidence (update_tracking_history p c empty_history) = [c])"
proof -
  have sz: "size_of (search_cutout flat_plane empty_history (50, 50) 25) \<noteq> 0"
    by (simp add: sample_cutout size_of_def)
  from track_pushes_once [OF sz, of sample_stats]
  obtain p c where
    "track_star_position sample_stats flat_plane (Some (50, 50)) 25 empty_history
       = (Some p, update_tracking_history p c empty_history)"
    by blast
  moreover have "position_history (update_tracking_history p c empty_history) = [p]"
    "tracking_confidence (update_tracking_history p c empty_history) = [c]"
    by (simp_all add: update_tracking_history_def empty_history_def tracking_history_size_def
        Let_def)
  ultimately show ?thesis using sz by blast
qed

text \<open>
  An expected position outside the plane gives an empty cutout: the call returns it and
  leaves the history empty, where a push would have recorded one position.
\<close>

theorem track_no_push_counterexample:
  "track_star_position sample_stats flat_plane (Some (500, 500)) 25 empty_history
     = (Some (500, 500), empty_history) \<and>
   position_history empty_history = [] \<and> tracking_confidence empty_history = [] \<and>
   position_history (update_tracking_history (500, 500) (1 / 10) empty_history)
     = [(500, 500)]"
  using track_empty_cutout [OF offimage_cutout, of sample_stats]
  by (simp add: empty_history_def update_tracking_history_def tracking_history_size_def Let_def)

end
